theory Spec2Isabelle
  imports Main "HOL-Library.Word"
begin

section \<open>The native boundary of Project Neon (neon\_jni.c)\<close>

text \<open>
  The file \<^verbatim>\<open>neon_jni.c\<close> has two layers. The JNI entry points, whose C names are
  \<^verbatim>\<open>Java_com_quietterminal_projectneon_jni_NeonClientJNI_<name>\<close> and
  \<^verbatim>\<open>Java_com_quietterminal_projectneon_jni_NeonHostJNI_<name>\<close>, are written here by
  their last component \<open><name>\<close> (\<open>neonClientConnect\<close>, \<open>neonHostNew\<close>, ...). The C API of
  \<^verbatim>\<open>project_neon.h\<close> (\<open>neon_client_connect\<close>, ...) obtains a JNI environment for the
  calling thread and calls the entry point of the same operation.

  The managed runtime is outside the file. Everything it decides during one call (whether
  a string conversion succeeds, whether a method is found, what a managed method returns
  and whether it throws, what \<^verbatim>\<open>malloc\<close> returns) is read from a record of type \<open>jvm\<close>
  that every function takes as its first argument; the theorems hold for every such record.
\<close>

subsection \<open>Values crossing the boundary\<close>

type_synonym thread = nat
type_synonym jlong = "64 word"
type_synonym jint = "32 word"

text \<open>A managed object reference; \<open>0\<close> is \<^verbatim>\<open>NULL\<close>.\<close>
type_synonym jobject = nat

datatype jclass = NeonClient | NeonHost

datatype jarg = ArgInt jint | ArgString string | ArgBoolean bool

text \<open>What was run on the managed side: constructors and methods, in call order.\<close>
datatype jni_event = Constructed jclass "jarg list" | Invoked jobject string "jarg list"

datatype jni_status = JNI_OK | JNI_EDETACHED | JNI_ERR

text \<open>
  The outcome of a managed method: it returns a value, or it throws. JNI leaves the value
  handed back by \<^verbatim>\<open>Call<Type>Method\<close> unspecified when the method threw, so \<open>Throws\<close>
  carries that value too.
\<close>
datatype 'a jcall = Returns 'a | Throws 'a

record jvm =
  GetEnv_status :: "thread \<Rightarrow> jni_status"
  Attach_status :: "thread \<Rightarrow> jni_status"
  FindClass_ok :: "jclass \<Rightarrow> bool"
  NewStringUTF_ok :: "string \<Rightarrow> bool"
  GetStringUTFChars_ok :: "string \<Rightarrow> bool"
  GetMethodID_ok :: "jclass \<Rightarrow> string \<Rightarrow> string \<Rightarrow> bool"
  NewObject_result :: "jclass \<Rightarrow> jarg list \<Rightarrow> jobject"
  void_method :: "jobject \<Rightarrow> string \<Rightarrow> jarg list \<Rightarrow> unit jcall"
  int_method :: "jobject \<Rightarrow> string \<Rightarrow> jint jcall"
  boolean_method :: "jobject \<Rightarrow> string \<Rightarrow> bool jcall"
  malloc_result :: jlong

subsection \<open>Handles and the state of the library\<close>

text \<open>
  \<^verbatim>\<open>struct NeonClientHandle\<close> and \<^verbatim>\<open>struct NeonHostHandle\<close>. Callback pointers are
  addresses, \<open>0\<close> for \<^verbatim>\<open>NULL\<close>. The host's fields \<^verbatim>\<open>javaObject\<close> and
  \<^verbatim>\<open>unhandledPacketCallback\<close> carry the prefix \<open>host_\<close>, since a field name belongs to
  one record.
\<close>

record NeonClientHandle =
  javaObject :: jobject
  pongCallback :: jlong
  sessionConfigCallback :: jlong
  packetTypeRegistryCallback :: jlong
  unhandledPacketCallback :: jlong
  wrongDestinationCallback :: jlong

record NeonHostHandle =
  host_javaObject :: jobject
  clientConnectCallback :: jlong
  clientDenyCallback :: jlong
  pingReceivedCallback :: jlong
  host_unhandledPacketCallback :: jlong

text \<open>
  The globals of the file and the memory they point to. \<open>g_error_buffer\<close> is
  \<^verbatim>\<open>THREAD_LOCAL\<close>: one buffer per thread, held as the C string it contains. \<open>pending\<close>
  is the pending-exception flag of each thread's JNI environment. \<open>clients\<close> and \<open>hosts\<close>
  are the live handle allocations; \<open>global_refs\<close> the global references held; \<open>trace\<close>
  the managed constructors and methods run so far.
\<close>

record neon_state =
  g_jvm :: bool
  g_neonClientClass :: "jclass option"
  g_neonHostClass :: "jclass option"
  g_error_buffer :: "thread \<Rightarrow> string"
  pending :: "thread \<Rightarrow> bool"
  clients :: "jlong \<rightharpoonup> NeonClientHandle"
  hosts :: "jlong \<rightharpoonup> NeonHostHandle"
  global_refs :: "jobject list"
  trace :: "jni_event list"

text \<open>The state at process start: zero-initialised globals, nothing allocated.\<close>

definition initial_state :: neon_state where
  "initial_state =
     \<lparr>g_jvm = False, g_neonClientClass = None, g_neonHostClass = None,
      g_error_buffer = (\<lambda>_. []), pending = (\<lambda>_. False),
      clients = Map.empty, hosts = Map.empty, global_refs = [], trace = []\<rparr>"

text \<open>
  How a function returns. Each \<^verbatim>\<open>return\<close> of the source is labelled by the path it
  ends: \<open>Ok v\<close> is the final \<^verbatim>\<open>return\<close> of the function; \<open>Failed v\<close> is an early
  \<^verbatim>\<open>return\<close> of the sentinel \<open>v\<close> on a path that called \<^verbatim>\<open>set_error\<close> (in the function
  itself or in \<^verbatim>\<open>get_jni_env\<close>); \<open>Quiet v\<close> is an early \<^verbatim>\<open>return\<close> that records
  nothing. A function that calls an entry point and returns its result keeps the label.
  The whole result is \<open>None\<close> where C leaves the behaviour undefined: a handle that is not a
  live allocation is dereferenced, or \<^verbatim>\<open>NULL\<close> is handed to a JNI routine that reads it.
\<close>

datatype 'a ret = Ok 'a | Quiet 'a | Failed 'a

fun map_ret :: "('a \<Rightarrow> 'b) \<Rightarrow> 'a ret \<Rightarrow> 'b ret" where
  "map_ret f (Ok v) = Ok (f v)"
| "map_ret f (Quiet v) = Quiet (f v)"
| "map_ret f (Failed v) = Failed (f v)"

fun ret_value :: "'a ret \<Rightarrow> 'a" where
  "ret_value (Ok v) = v"
| "ret_value (Quiet v) = v"
| "ret_value (Failed v) = v"

fun is_Failed :: "'a ret \<Rightarrow> bool" where
  "is_Failed (Failed v) = True"
| "is_Failed (Ok v) = False"
| "is_Failed (Quiet v) = False"

type_synonym 'a outcome = "('a ret \<times> neon_state) option"

definition convert :: "('a \<Rightarrow> 'b) \<Rightarrow> 'a outcome \<Rightarrow> 'b outcome" where
  "convert f x = (case x of None \<Rightarrow> None | Some (r, s) \<Rightarrow> Some (map_ret f r, s))"

subsection \<open>The error channel\<close>

text \<open>
  \<^verbatim>\<open>strncpy(g_error_buffer, msg, 511); g_error_buffer[511] = '\0';\<close> the buffer of the
  calling thread then holds the first 511 bytes of the message.
\<close>

definition set_error :: "thread \<Rightarrow> string \<Rightarrow> neon_state \<Rightarrow> neon_state" where
  "set_error t msg s = s\<lparr>g_error_buffer := (g_error_buffer s)(t := take 511 msg)\<rparr>"

definition neon_get_last_error :: "thread \<Rightarrow> neon_state \<Rightarrow> string option" where
  "neon_get_last_error t s =
     (if g_error_buffer s t = [] then None else Some (g_error_buffer s t))"

subsection \<open>JNI routines\<close>

text \<open>
  The routines of the JNI environment that the file calls, as far as they touch the
  state. An exception becomes pending on a thread when managed code run for that thread
  throws. \<^verbatim>\<open>ExceptionDescribe\<close> only prints and is left out. Local references and the
  buffers of string conversions are not part of the state, so \<^verbatim>\<open>DeleteLocalRef\<close> and
  \<^verbatim>\<open>ReleaseStringUTFChars\<close> have no counterpart; a lookup or a conversion that fails is
  seen by the file as a \<^verbatim>\<open>NULL\<close> result, which the runtime record decides. A string
  converted to a managed string and back is the same sequence of bytes, and a global
  reference refers to the object it was made from.
\<close>

definition ExceptionCheck :: "thread \<Rightarrow> neon_state \<Rightarrow> bool" where
  "ExceptionCheck t s = pending s t"

definition ExceptionClear :: "thread \<Rightarrow> neon_state \<Rightarrow> neon_state" where
  "ExceptionClear t s = s\<lparr>pending := (pending s)(t := False)\<rparr>"

definition raise_if_thrown :: "thread \<Rightarrow> 'a jcall \<Rightarrow> neon_state \<Rightarrow> neon_state" where
  "raise_if_thrown t c s =
     (case c of Returns v \<Rightarrow> s | Throws v \<Rightarrow> s\<lparr>pending := (pending s)(t := True)\<rparr>)"

fun jcall_value :: "'a jcall \<Rightarrow> 'a" where
  "jcall_value (Returns v) = v"
| "jcall_value (Throws v) = v"

definition CallVoidMethod ::
  "jvm \<Rightarrow> thread \<Rightarrow> jobject \<Rightarrow> string \<Rightarrow> jarg list \<Rightarrow> neon_state \<Rightarrow> neon_state" where
  "CallVoidMethod J t obj m args s =
     raise_if_thrown t (void_method J obj m args) (s\<lparr>trace := trace s @ [Invoked obj m args]\<rparr>)"

definition CallIntMethod ::
  "jvm \<Rightarrow> thread \<Rightarrow> jobject \<Rightarrow> string \<Rightarrow> neon_state \<Rightarrow> jint \<times> neon_state" where
  "CallIntMethod J t obj m s =
     (jcall_value (int_method J obj m),
      raise_if_thrown t (int_method J obj m) (s\<lparr>trace := trace s @ [Invoked obj m []]\<rparr>))"

definition CallBooleanMethod ::
  "jvm \<Rightarrow> thread \<Rightarrow> jobject \<Rightarrow> string \<Rightarrow> neon_state \<Rightarrow> bool \<times> neon_state" where
  "CallBooleanMethod J t obj m s =
     (jcall_value (boolean_method J obj m),
      raise_if_thrown t (boolean_method J obj m) (s\<lparr>trace := trace s @ [Invoked obj m []]\<rparr>))"

text \<open>
  \<^verbatim>\<open>NewObject\<close> runs the constructor; it returns \<^verbatim>\<open>NULL\<close> exactly when the object could
  not be constructed, and an exception is then pending.
\<close>

definition NewObject ::
  "jvm \<Rightarrow> thread \<Rightarrow> jclass \<Rightarrow> jarg list \<Rightarrow> neon_state \<Rightarrow> jobject \<times> neon_state" where
  "NewObject J t cls args s =
     (let obj = NewObject_result J cls args;
          s1 = s\<lparr>trace := trace s @ [Constructed cls args]\<rparr>
      in (obj, if obj = 0 then s1\<lparr>pending := (pending s1)(t := True)\<rparr> else s1))"

definition NewGlobalRef :: "jobject \<Rightarrow> neon_state \<Rightarrow> neon_state" where
  "NewGlobalRef obj s = s\<lparr>global_refs := obj # global_refs s\<rparr>"

definition DeleteGlobalRef :: "jobject \<Rightarrow> neon_state \<Rightarrow> neon_state" where
  "DeleteGlobalRef obj s = s\<lparr>global_refs := remove1 obj (global_refs s)\<rparr>"

subsection \<open>The relay address: \<^verbatim>\<open>sscanf(addrStr, "%255[^:]:%d", host, &port)\<close>\<close>

text \<open>
  The C library's \<^verbatim>\<open>sscanf\<close> on this one format, after the C standard (7.21.6.2).
  \<^verbatim>\<open>%255[^:]\<close> takes the longest run of at most 255 bytes other than a colon, without
  skipping white space, and fails on an empty run. The directive \<^verbatim>\<open>:\<close> takes exactly a
  colon. \<^verbatim>\<open>%d\<close> skips white space, takes an optional sign and the longest run of decimal
  digits, and fails when there is no digit. The result is the number of conversions
  stored, or \<^verbatim>\<open>EOF\<close> (\<open>-1\<close>) on an empty input, together with what was stored in
  \<^verbatim>\<open>host\<close> and \<^verbatim>\<open>port\<close>; the caller reads these only when the count is 2. The port is
  the mathematical value of the digits (C leaves the stored \<^verbatim>\<open>int\<close> undefined when that
  value does not fit, and a C library may store something else there than the low 32
  bits that the callers of this function pass on; no property below reads the port of
  such an input). The input is a C string, a sequence of bytes without a NUL byte.
\<close>

definition isspace :: "char \<Rightarrow> bool" where
  "isspace c = (c = CHR '' '' \<or> c = CHR 0x09 \<or> c = CHR 0x0A \<or> c = CHR 0x0B
                \<or> c = CHR 0x0C \<or> c = CHR 0x0D)"

definition isdigit :: "char \<Rightarrow> bool" where
  "isdigit c = (48 \<le> (of_char c :: nat) \<and> (of_char c :: nat) \<le> 57)"

definition digit_value :: "char \<Rightarrow> int" where
  "digit_value c = int (of_char c) - 48"

definition decimal :: "string \<Rightarrow> int" where
  "decimal ds = foldl (\<lambda>a c. 10 * a + digit_value c) 0 ds"

definition sscanf_relay :: "string \<Rightarrow> int \<times> string \<times> int" where
  "sscanf_relay s =
     (if s = [] then (- 1, [], 0)
      else
        let host = takeWhile (\<lambda>c. c \<noteq> CHR '':'') (take 255 s);
            r1 = drop (length host) s
        in if host = [] then (0, [], 0)
           else if r1 = [] then (1, host, 0)
           else if hd r1 \<noteq> CHR '':'' then (1, host, 0)
           else
             let r2 = dropWhile isspace (tl r1);
                 neg = (r2 \<noteq> [] \<and> hd r2 = CHR ''-'');
                 r3 = (if r2 \<noteq> [] \<and> (hd r2 = CHR ''-'' \<or> hd r2 = CHR ''+'') then tl r2 else r2);
                 ds = takeWhile isdigit r3
             in if ds = [] then (1, host, 0)
                else (2, host, if neg then - decimal ds else decimal ds))"

subsection \<open>Loading and unloading\<close>

definition JNI_OnLoad :: "jvm \<Rightarrow> thread \<Rightarrow> neon_state \<Rightarrow> jint outcome" where
  "JNI_OnLoad J t s =
     (let s1 = s\<lparr>g_jvm := True\<rparr> in
      if GetEnv_status J t \<noteq> JNI_OK then Some (Quiet (- 1), s1)
      else if \<not> FindClass_ok J NeonClient then Some (Quiet (- 1), s1)
      else
        let s2 = s1\<lparr>g_neonClientClass := Some NeonClient\<rparr> in
        if \<not> FindClass_ok J NeonHost then Some (Quiet (- 1), s2)
        else Some (Ok 0x10008, s2\<lparr>g_neonHostClass := Some NeonHost\<rparr>))"

definition JNI_OnUnload :: "jvm \<Rightarrow> thread \<Rightarrow> neon_state \<Rightarrow> unit outcome" where
  "JNI_OnUnload J t s =
     (let s1 = (if GetEnv_status J t = JNI_OK
                then s\<lparr>g_neonClientClass := None, g_neonHostClass := None\<rparr> else s)
      in Some (Ok (), s1\<lparr>g_jvm := False\<rparr>))"

subsection \<open>JNI entry points of the client\<close>

definition neonClientNew :: "jvm \<Rightarrow> thread \<Rightarrow> string option \<Rightarrow> neon_state \<Rightarrow> jlong outcome" where
  "neonClientNew J t name s =
     (case name of
        None \<Rightarrow> Some (Failed 0, set_error t ''Client name cannot be null'' s)
      | Some nameStr \<Rightarrow>
          if \<not> GetStringUTFChars_ok J nameStr
          then Some (Failed 0, set_error t ''Failed to get client name string'' s)
          else
            (case g_neonClientClass s of
               None \<Rightarrow> None
             | Some cls \<Rightarrow>
                 if \<not> GetMethodID_ok J cls ''<init>'' ''(Ljava/lang/String;)V''
                 then Some (Failed 0, set_error t ''Failed to find NeonClient constructor'' s)
                 else
                   let (clientObj, s1) = NewObject J t cls [ArgString nameStr] s in
                   if clientObj = 0
                   then Some (Failed 0, set_error t ''Failed to create NeonClient instance'' s1)
                   else
                     let handle = malloc_result J in
                     if handle = 0
                     then Some (Failed 0, set_error t ''Failed to allocate client handle'' s1)
                     else
                       let s2 = NewGlobalRef clientObj s1 in
                       Some (Ok handle,
                             s2\<lparr>clients := (clients s2)(handle \<mapsto>
                                  \<lparr>javaObject = clientObj, pongCallback = 0,
                                   sessionConfigCallback = 0, packetTypeRegistryCallback = 0,
                                   unhandledPacketCallback = 0,
                                   wrongDestinationCallback = 0\<rparr>)\<rparr>)))"

definition neonClientConnect ::
  "jvm \<Rightarrow> thread \<Rightarrow> jlong \<Rightarrow> jint \<Rightarrow> string option \<Rightarrow> neon_state \<Rightarrow> bool outcome" where
  "neonClientConnect J t clientPtr sessionId relayAddr s =
     (if clientPtr = 0 then Some (Failed False, set_error t ''Invalid client handle'' s)
      else
        (case relayAddr of
           None \<Rightarrow> None
         | Some addrStr \<Rightarrow>
             if \<not> GetStringUTFChars_ok J addrStr
             then Some (Failed False, set_error t ''Failed to get relay address string'' s)
             else
               let (n, host, port) = sscanf_relay addrStr in
               if n \<noteq> 2
               then Some (Failed False,
                          set_error t ''Invalid relay address format (expected host:port)'' s)
               else
                 (case g_neonClientClass s of
                    None \<Rightarrow> None
                  | Some cls \<Rightarrow>
                      if \<not> GetMethodID_ok J cls ''connect'' ''(ILjava/lang/String;I)V''
                      then Some (Failed False, set_error t ''Failed to find connect method'' s)
                      else if \<not> NewStringUTF_ok J host
                      then Some (Failed False, set_error t ''Failed to create host string'' s)
                      else
                        (case clients s clientPtr of
                           None \<Rightarrow> None
                         | Some handle \<Rightarrow>
                             let s1 = CallVoidMethod J t (javaObject handle) ''connect''
                                        [ArgInt sessionId, ArgString host,
                                         ArgInt (word_of_int port)] s
                             in if ExceptionCheck t s1
                                then Some (Failed False,
                                           set_error t ''Exception during connect''
                                             (ExceptionClear t s1))
                                else Some (Ok True, s1)))))"

definition neonClientProcessPackets :: "jvm \<Rightarrow> thread \<Rightarrow> jlong \<Rightarrow> neon_state \<Rightarrow> jint outcome" where
  "neonClientProcessPackets J t clientPtr s =
     (if clientPtr = 0 then Some (Failed (- 1), set_error t ''Invalid client handle'' s)
      else
        (case g_neonClientClass s of
           None \<Rightarrow> None
         | Some cls \<Rightarrow>
             if \<not> GetMethodID_ok J cls ''processPackets'' ''()I''
             then Some (Failed (- 1), set_error t ''Failed to find processPackets method'' s)
             else
               (case clients s clientPtr of
                  None \<Rightarrow> None
                | Some handle \<Rightarrow>
                    let (result, s1) = CallIntMethod J t (javaObject handle) ''processPackets'' s
                    in if ExceptionCheck t s1
                       then Some (Failed (- 1),
                                  set_error t ''Exception during processPackets''
                                    (ExceptionClear t s1))
                       else Some (Ok result, s1))))"

definition neonClientGetId :: "jvm \<Rightarrow> thread \<Rightarrow> jlong \<Rightarrow> neon_state \<Rightarrow> jint outcome" where
  "neonClientGetId J t clientPtr s =
     (if clientPtr = 0 then Some (Failed (- 1), set_error t ''Invalid client handle'' s)
      else
        (case g_neonClientClass s of
           None \<Rightarrow> None
         | Some cls \<Rightarrow>
             if \<not> GetMethodID_ok J cls ''getClientId'' ''()I''
             then Some (Failed (- 1), set_error t ''Failed to find getClientId method'' s)
             else
               (case clients s clientPtr of
                  None \<Rightarrow> None
                | Some handle \<Rightarrow>
                    let (result, s1) = CallIntMethod J t (javaObject handle) ''getClientId'' s
                    in Some (Ok result, s1))))"

definition neonClientGetSessionId :: "jvm \<Rightarrow> thread \<Rightarrow> jlong \<Rightarrow> neon_state \<Rightarrow> jint outcome" where
  "neonClientGetSessionId J t clientPtr s =
     (if clientPtr = 0 then Some (Failed (- 1), set_error t ''Invalid client handle'' s)
      else
        (case g_neonClientClass s of
           None \<Rightarrow> None
         | Some cls \<Rightarrow>
             if \<not> GetMethodID_ok J cls ''getSessionId'' ''()I''
             then Some (Failed (- 1), set_error t ''Failed to find getSessionId method'' s)
             else
               (case clients s clientPtr of
                  None \<Rightarrow> None
                | Some handle \<Rightarrow>
                    let (result, s1) = CallIntMethod J t (javaObject handle) ''getSessionId'' s
                    in Some (Ok result, s1))))"

definition neonClientIsConnected :: "jvm \<Rightarrow> thread \<Rightarrow> jlong \<Rightarrow> neon_state \<Rightarrow> bool outcome" where
  "neonClientIsConnected J t clientPtr s =
     (if clientPtr = 0 then Some (Quiet False, s)
      else
        (case g_neonClientClass s of
           None \<Rightarrow> None
         | Some cls \<Rightarrow>
             if \<not> GetMethodID_ok J cls ''isConnected'' ''()Z''
             then Some (Quiet False, s)
             else
               (case clients s clientPtr of
                  None \<Rightarrow> None
                | Some handle \<Rightarrow>
                    let (result, s1) = CallBooleanMethod J t (javaObject handle) ''isConnected'' s
                    in Some (Ok result, s1))))"

definition neonClientSendPing :: "jvm \<Rightarrow> thread \<Rightarrow> jlong \<Rightarrow> neon_state \<Rightarrow> bool outcome" where
  "neonClientSendPing J t clientPtr s =
     (if clientPtr = 0 then Some (Failed False, set_error t ''Invalid client handle'' s)
      else
        (case g_neonClientClass s of
           None \<Rightarrow> None
         | Some cls \<Rightarrow>
             if \<not> GetMethodID_ok J cls ''sendPing'' ''()V''
             then Some (Failed False, set_error t ''Failed to find sendPing method'' s)
             else
               (case clients s clientPtr of
                  None \<Rightarrow> None
                | Some handle \<Rightarrow>
                    let s1 = CallVoidMethod J t (javaObject handle) ''sendPing'' [] s
                    in if ExceptionCheck t s1
                       then Some (Failed False,
                                  set_error t ''Exception during sendPing'' (ExceptionClear t s1))
                       else Some (Ok True, s1))))"

definition neonClientSetAutoPing ::
  "jvm \<Rightarrow> thread \<Rightarrow> jlong \<Rightarrow> bool \<Rightarrow> neon_state \<Rightarrow> unit outcome" where
  "neonClientSetAutoPing J t clientPtr enabled s =
     (if clientPtr = 0 then Some (Failed (), set_error t ''Invalid client handle'' s)
      else
        (case g_neonClientClass s of
           None \<Rightarrow> None
         | Some cls \<Rightarrow>
             if \<not> GetMethodID_ok J cls ''setAutoPing'' ''(Z)V''
             then Some (Failed (), set_error t ''Failed to find setAutoPing method'' s)
             else
               (case clients s clientPtr of
                  None \<Rightarrow> None
                | Some handle \<Rightarrow>
                    Some (Ok (), CallVoidMethod J t (javaObject handle) ''setAutoPing''
                                   [ArgBoolean enabled] s))))"

definition neonClientSetPongCallback ::
  "thread \<Rightarrow> jlong \<Rightarrow> jlong \<Rightarrow> neon_state \<Rightarrow> unit outcome" where
  "neonClientSetPongCallback t clientPtr callback s =
     (if clientPtr = 0 then Some (Failed (), set_error t ''Invalid client handle'' s)
      else
        (case clients s clientPtr of
           None \<Rightarrow> None
         | Some handle \<Rightarrow>
             Some (Ok (), s\<lparr>clients := (clients s)(clientPtr \<mapsto>
                               handle\<lparr>pongCallback := callback\<rparr>)\<rparr>)))"

definition neonClientSetSessionConfigCallback ::
  "thread \<Rightarrow> jlong \<Rightarrow> jlong \<Rightarrow> neon_state \<Rightarrow> unit outcome" where
  "neonClientSetSessionConfigCallback t clientPtr callback s =
     (if clientPtr = 0 then Some (Failed (), set_error t ''Invalid client handle'' s)
      else
        (case clients s clientPtr of
           None \<Rightarrow> None
         | Some handle \<Rightarrow>
             Some (Ok (), s\<lparr>clients := (clients s)(clientPtr \<mapsto>
                               handle\<lparr>sessionConfigCallback := callback\<rparr>)\<rparr>)))"

definition neonClientSetPacketTypeRegistryCallback ::
  "thread \<Rightarrow> jlong \<Rightarrow> jlong \<Rightarrow> neon_state \<Rightarrow> unit outcome" where
  "neonClientSetPacketTypeRegistryCallback t clientPtr callback s =
     (if clientPtr = 0 then Some (Failed (), set_error t ''Invalid client handle'' s)
      else
        (case clients s clientPtr of
           None \<Rightarrow> None
         | Some handle \<Rightarrow>
             Some (Ok (), s\<lparr>clients := (clients s)(clientPtr \<mapsto>
                               handle\<lparr>packetTypeRegistryCallback := callback\<rparr>)\<rparr>)))"

definition neonClientSetUnhandledPacketCallback ::
  "thread \<Rightarrow> jlong \<Rightarrow> jlong \<Rightarrow> neon_state \<Rightarrow> unit outcome" where
  "neonClientSetUnhandledPacketCallback t clientPtr callback s =
     (if clientPtr = 0 then Some (Failed (), set_error t ''Invalid client handle'' s)
      else
        (case clients s clientPtr of
           None \<Rightarrow> None
         | Some handle \<Rightarrow>
             Some (Ok (), s\<lparr>clients := (clients s)(clientPtr \<mapsto>
                               handle\<lparr>unhandledPacketCallback := callback\<rparr>)\<rparr>)))"

definition neonClientSetWrongDestinationCallback ::
  "thread \<Rightarrow> jlong \<Rightarrow> jlong \<Rightarrow> neon_state \<Rightarrow> unit outcome" where
  "neonClientSetWrongDestinationCallback t clientPtr callback s =
     (if clientPtr = 0 then Some (Failed (), set_error t ''Invalid client handle'' s)
      else
        (case clients s clientPtr of
           None \<Rightarrow> None
         | Some handle \<Rightarrow>
             Some (Ok (), s\<lparr>clients := (clients s)(clientPtr \<mapsto>
                               handle\<lparr>wrongDestinationCallback := callback\<rparr>)\<rparr>)))"

definition neonClientFree :: "jvm \<Rightarrow> thread \<Rightarrow> jlong \<Rightarrow> neon_state \<Rightarrow> unit outcome" where
  "neonClientFree J t clientPtr s =
     (if clientPtr = 0 then Some (Quiet (), s)
      else
        (case g_neonClientClass s of
           None \<Rightarrow> None
         | Some cls \<Rightarrow>
             (case clients s clientPtr of
                None \<Rightarrow> None
              | Some handle \<Rightarrow>
                  let s1 = (if GetMethodID_ok J cls ''close'' ''()V''
                            then
                              (let s0 = CallVoidMethod J t (javaObject handle) ''close'' [] s
                               in if ExceptionCheck t s0 then ExceptionClear t s0 else s0)
                            else s);
                      s2 = DeleteGlobalRef (javaObject handle) s1
                  in Some (Ok (), s2\<lparr>clients := (clients s2)(clientPtr := None)\<rparr>))))"

text \<open>
  The accessor of the entry-point layer converts the buffer to a managed string, which
  can fail; both of its \<^verbatim>\<open>return\<close>s are ordinary results.
\<close>

definition neonGetLastError :: "jvm \<Rightarrow> thread \<Rightarrow> neon_state \<Rightarrow> string option" where
  "neonGetLastError J t s =
     (if g_error_buffer s t = [] then None
      else if NewStringUTF_ok J (g_error_buffer s t) then Some (g_error_buffer s t)
      else None)"

subsection \<open>JNI entry points of the host\<close>

definition neonHostNew ::
  "jvm \<Rightarrow> thread \<Rightarrow> jint \<Rightarrow> string option \<Rightarrow> neon_state \<Rightarrow> jlong outcome" where
  "neonHostNew J t sessionId relayAddr s =
     (case relayAddr of
        None \<Rightarrow> Some (Failed 0, set_error t ''Relay address cannot be null'' s)
      | Some addrStr \<Rightarrow>
          if \<not> GetStringUTFChars_ok J addrStr
          then Some (Failed 0, set_error t ''Failed to get relay address string'' s)
          else
            let (n, host, port) = sscanf_relay addrStr in
            if n \<noteq> 2
            then Some (Failed 0,
                       set_error t ''Invalid relay address format (expected host:port)'' s)
            else
              (case g_neonHostClass s of
                 None \<Rightarrow> None
               | Some cls \<Rightarrow>
                   if \<not> GetMethodID_ok J cls ''<init>'' ''(ILjava/lang/String;I)V''
                   then Some (Failed 0, set_error t ''Failed to find NeonHost constructor'' s)
                   else if \<not> NewStringUTF_ok J host
                   then Some (Failed 0, set_error t ''Failed to create host string'' s)
                   else
                     let (hostObj, s1) =
                           NewObject J t cls
                             [ArgInt sessionId, ArgString host, ArgInt (word_of_int port)] s
                     in if hostObj = 0
                        then Some (Failed 0, set_error t ''Failed to create NeonHost instance'' s1)
                        else
                          let handle = malloc_result J in
                          if handle = 0
                          then Some (Failed 0, set_error t ''Failed to allocate host handle'' s1)
                          else
                            let s2 = NewGlobalRef hostObj s1 in
                            Some (Ok handle,
                                  s2\<lparr>hosts := (hosts s2)(handle \<mapsto>
                                       \<lparr>host_javaObject = hostObj, clientConnectCallback = 0,
                                        clientDenyCallback = 0, pingReceivedCallback = 0,
                                        host_unhandledPacketCallback = 0\<rparr>)\<rparr>)))"

definition neonHostStart :: "jvm \<Rightarrow> thread \<Rightarrow> jlong \<Rightarrow> neon_state \<Rightarrow> bool outcome" where
  "neonHostStart J t hostPtr s =
     (if hostPtr = 0 then Some (Failed False, set_error t ''Invalid host handle'' s)
      else
        (case g_neonHostClass s of
           None \<Rightarrow> None
         | Some cls \<Rightarrow>
             if \<not> GetMethodID_ok J cls ''start'' ''()V''
             then Some (Failed False, set_error t ''Failed to find start method'' s)
             else
               (case hosts s hostPtr of
                  None \<Rightarrow> None
                | Some handle \<Rightarrow>
                    let s1 = CallVoidMethod J t (host_javaObject handle) ''start'' [] s
                    in if ExceptionCheck t s1
                       then Some (Failed False,
                                  set_error t ''Exception during start'' (ExceptionClear t s1))
                       else Some (Ok True, s1))))"

definition neonHostProcessPackets :: "jvm \<Rightarrow> thread \<Rightarrow> jlong \<Rightarrow> neon_state \<Rightarrow> jint outcome" where
  "neonHostProcessPackets J t hostPtr s =
     (if hostPtr = 0 then Some (Failed (- 1), set_error t ''Invalid host handle'' s)
      else
        (case g_neonHostClass s of
           None \<Rightarrow> None
         | Some cls \<Rightarrow>
             if \<not> GetMethodID_ok J cls ''processPackets'' ''()I''
             then Some (Failed (- 1), set_error t ''Failed to find processPackets method'' s)
             else
               (case hosts s hostPtr of
                  None \<Rightarrow> None
                | Some handle \<Rightarrow>
                    let (result, s1) =
                          CallIntMethod J t (host_javaObject handle) ''processPackets'' s
                    in if ExceptionCheck t s1
                       then Some (Failed (- 1),
                                  set_error t ''Exception during processPackets''
                                    (ExceptionClear t s1))
                       else Some (Ok result, s1))))"

definition neonHostGetSessionId :: "jvm \<Rightarrow> thread \<Rightarrow> jlong \<Rightarrow> neon_state \<Rightarrow> jint outcome" where
  "neonHostGetSessionId J t hostPtr s =
     (if hostPtr = 0 then Some (Failed (- 1), set_error t ''Invalid host handle'' s)
      else
        (case g_neonHostClass s of
           None \<Rightarrow> None
         | Some cls \<Rightarrow>
             if \<not> GetMethodID_ok J cls ''getSessionId'' ''()I''
             then Some (Failed (- 1), set_error t ''Failed to find getSessionId method'' s)
             else
               (case hosts s hostPtr of
                  None \<Rightarrow> None
                | Some handle \<Rightarrow>
                    let (result, s1) =
                          CallIntMethod J t (host_javaObject handle) ''getSessionId'' s
                    in Some (Ok result, s1))))"

definition neonHostGetClientCount :: "jvm \<Rightarrow> thread \<Rightarrow> jlong \<Rightarrow> neon_state \<Rightarrow> jint outcome" where
  "neonHostGetClientCount J t hostPtr s =
     (if hostPtr = 0 then Some (Failed 0, set_error t ''Invalid host handle'' s)
      else
        (case g_neonHostClass s of
           None \<Rightarrow> None
         | Some cls \<Rightarrow>
             if \<not> GetMethodID_ok J cls ''getClientCount'' ''()I''
             then Some (Failed 0, set_error t ''Failed to find getClientCount method'' s)
             else
               (case hosts s hostPtr of
                  None \<Rightarrow> None
                | Some handle \<Rightarrow>
                    let (result, s1) =
                          CallIntMethod J t (host_javaObject handle) ''getClientCount'' s
                    in Some (Ok result, s1))))"

definition neonHostSetClientConnectCallback ::
  "thread \<Rightarrow> jlong \<Rightarrow> jlong \<Rightarrow> neon_state \<Rightarrow> unit outcome" where
  "neonHostSetClientConnectCallback t hostPtr callback s =
     (if hostPtr = 0 then Some (Failed (), set_error t ''Invalid host handle'' s)
      else
        (case hosts s hostPtr of
           None \<Rightarrow> None
         | Some handle \<Rightarrow>
             Some (Ok (), s\<lparr>hosts := (hosts s)(hostPtr \<mapsto>
                               handle\<lparr>clientConnectCallback := callback\<rparr>)\<rparr>)))"

definition neonHostSetClientDenyCallback ::
  "thread \<Rightarrow> jlong \<Rightarrow> jlong \<Rightarrow> neon_state \<Rightarrow> unit outcome" where
  "neonHostSetClientDenyCallback t hostPtr callback s =
     (if hostPtr = 0 then Some (Failed (), set_error t ''Invalid host handle'' s)
      else
        (case hosts s hostPtr of
           None \<Rightarrow> None
         | Some handle \<Rightarrow>
             Some (Ok (), s\<lparr>hosts := (hosts s)(hostPtr \<mapsto>
                               handle\<lparr>clientDenyCallback := callback\<rparr>)\<rparr>)))"

definition neonHostSetPingReceivedCallback ::
  "thread \<Rightarrow> jlong \<Rightarrow> jlong \<Rightarrow> neon_state \<Rightarrow> unit outcome" where
  "neonHostSetPingReceivedCallback t hostPtr callback s =
     (if hostPtr = 0 then Some (Failed (), set_error t ''Invalid host handle'' s)
      else
        (case hosts s hostPtr of
           None \<Rightarrow> None
         | Some handle \<Rightarrow>
             Some (Ok (), s\<lparr>hosts := (hosts s)(hostPtr \<mapsto>
                               handle\<lparr>pingReceivedCallback := callback\<rparr>)\<rparr>)))"

definition neonHostSetUnhandledPacketCallback ::
  "thread \<Rightarrow> jlong \<Rightarrow> jlong \<Rightarrow> neon_state \<Rightarrow> unit outcome" where
  "neonHostSetUnhandledPacketCallback t hostPtr callback s =
     (if hostPtr = 0 then Some (Failed (), set_error t ''Invalid host handle'' s)
      else
        (case hosts s hostPtr of
           None \<Rightarrow> None
         | Some handle \<Rightarrow>
             Some (Ok (), s\<lparr>hosts := (hosts s)(hostPtr \<mapsto>
                               handle\<lparr>host_unhandledPacketCallback := callback\<rparr>)\<rparr>)))"

definition neonHostFree :: "jvm \<Rightarrow> thread \<Rightarrow> jlong \<Rightarrow> neon_state \<Rightarrow> unit outcome" where
  "neonHostFree J t hostPtr s =
     (if hostPtr = 0 then Some (Quiet (), s)
      else
        (case g_neonHostClass s of
           None \<Rightarrow> None
         | Some cls \<Rightarrow>
             (case hosts s hostPtr of
                None \<Rightarrow> None
              | Some handle \<Rightarrow>
                  let s1 = (if GetMethodID_ok J cls ''close'' ''()V''
                            then
                              (let s0 = CallVoidMethod J t (host_javaObject handle) ''close'' [] s
                               in if ExceptionCheck t s0 then ExceptionClear t s0 else s0)
                            else s);
                      s2 = DeleteGlobalRef (host_javaObject handle) s1
                  in Some (Ok (), s2\<lparr>hosts := (hosts s2)(hostPtr := None)\<rparr>))))"

subsection \<open>The C API of project\_neon.h\<close>

text \<open>
  \<^verbatim>\<open>get_jni_env\<close> yields the environment of the calling thread, attaching the thread
  when it is detached (the file keeps no record of attached threads, and neither does
  the state). The result is whether the environment is not \<^verbatim>\<open>NULL\<close>; each
  \<^verbatim>\<open>NULL\<close> result has recorded an error. The managed strings that \<open>neon_client_new\<close>,
  \<open>neon_client_connect\<close> and \<open>neon_host_new\<close> make of their arguments are local
  references, which the state does not hold either. The string arguments of the C API are C strings
  (not \<^verbatim>\<open>NULL\<close>); a handle argument is the pointer value, \<open>0\<close> for \<^verbatim>\<open>NULL\<close>.
\<close>

definition get_jni_env :: "jvm \<Rightarrow> thread \<Rightarrow> neon_state \<Rightarrow> bool \<times> neon_state" where
  "get_jni_env J t s =
     (if \<not> g_jvm s then (False, set_error t ''JVM not initialized'' s)
      else
        let result = GetEnv_status J t in
        if result = JNI_EDETACHED
        then (if Attach_status J t \<noteq> JNI_OK
              then (False, set_error t ''Failed to attach thread to JVM'' s)
              else (True, s))
        else if result \<noteq> JNI_OK
        then (False, set_error t ''Failed to get JNI environment'' s)
        else (True, s))"

definition neon_client_new :: "jvm \<Rightarrow> thread \<Rightarrow> string \<Rightarrow> neon_state \<Rightarrow> jlong outcome" where
  "neon_client_new J t name s =
     (let (env, s1) = get_jni_env J t s in
      if \<not> env then Some (Failed 0, s1)
      else if \<not> NewStringUTF_ok J name
      then Some (Failed 0, set_error t ''Failed to create name string'' s1)
      else neonClientNew J t (Some name) s1)"

definition neon_client_connect ::
  "jvm \<Rightarrow> thread \<Rightarrow> jlong \<Rightarrow> 32 word \<Rightarrow> string \<Rightarrow> neon_state \<Rightarrow> bool outcome" where
  "neon_client_connect J t client session_id relay_addr s =
     (if client = 0 then Some (Failed False, set_error t ''Invalid client handle'' s)
      else
        let (env, s1) = get_jni_env J t s in
        if \<not> env then Some (Failed False, s1)
        else if \<not> NewStringUTF_ok J relay_addr
        then Some (Failed False, set_error t ''Failed to create relay address string'' s1)
        else convert (\<lambda>result. result = True)
               (neonClientConnect J t client session_id (Some relay_addr) s1))"

definition neon_client_process_packets ::
  "jvm \<Rightarrow> thread \<Rightarrow> jlong \<Rightarrow> neon_state \<Rightarrow> jint outcome" where
  "neon_client_process_packets J t client s =
     (if client = 0 then Some (Failed (- 1), set_error t ''Invalid client handle'' s)
      else
        let (env, s1) = get_jni_env J t s in
        if \<not> env then Some (Failed (- 1), s1)
        else neonClientProcessPackets J t client s1)"

text \<open>\<^verbatim>\<open>uint8_t\<close> and \<^verbatim>\<open>uint32_t\<close> results: the entry point's \<^verbatim>\<open>jint\<close> is cast.\<close>

definition neon_client_get_id :: "jvm \<Rightarrow> thread \<Rightarrow> jlong \<Rightarrow> neon_state \<Rightarrow> 8 word outcome" where
  "neon_client_get_id J t client s =
     (if client = 0 then Some (Quiet 0, s)
      else
        let (env, s1) = get_jni_env J t s in
        if \<not> env then Some (Failed 0, s1)
        else convert ucast (neonClientGetId J t client s1))"

definition neon_client_get_session_id ::
  "jvm \<Rightarrow> thread \<Rightarrow> jlong \<Rightarrow> neon_state \<Rightarrow> 32 word outcome" where
  "neon_client_get_session_id J t client s =
     (if client = 0 then Some (Quiet 0, s)
      else
        let (env, s1) = get_jni_env J t s in
        if \<not> env then Some (Failed 0, s1)
        else convert ucast (neonClientGetSessionId J t client s1))"

definition neon_client_is_connected :: "jvm \<Rightarrow> thread \<Rightarrow> jlong \<Rightarrow> neon_state \<Rightarrow> bool outcome" where
  "neon_client_is_connected J t client s =
     (if client = 0 then Some (Quiet False, s)
      else
        let (env, s1) = get_jni_env J t s in
        if \<not> env then Some (Failed False, s1)
        else convert (\<lambda>result. result = True) (neonClientIsConnected J t client s1))"

definition neon_client_send_ping :: "jvm \<Rightarrow> thread \<Rightarrow> jlong \<Rightarrow> neon_state \<Rightarrow> bool outcome" where
  "neon_client_send_ping J t client s =
     (if client = 0 then Some (Failed False, set_error t ''Invalid client handle'' s)
      else
        let (env, s1) = get_jni_env J t s in
        if \<not> env then Some (Failed False, s1)
        else convert (\<lambda>result. result = True) (neonClientSendPing J t client s1))"

definition neon_client_set_auto_ping ::
  "jvm \<Rightarrow> thread \<Rightarrow> jlong \<Rightarrow> bool \<Rightarrow> neon_state \<Rightarrow> unit outcome" where
  "neon_client_set_auto_ping J t client enabled s =
     (if client = 0 then Some (Quiet (), s)
      else
        let (env, s1) = get_jni_env J t s in
        if \<not> env then Some (Failed (), s1)
        else neonClientSetAutoPing J t client (if enabled then True else False) s1)"

definition neon_client_set_pong_callback ::
  "jvm \<Rightarrow> thread \<Rightarrow> jlong \<Rightarrow> jlong \<Rightarrow> neon_state \<Rightarrow> unit outcome" where
  "neon_client_set_pong_callback J t client callback s =
     (if client = 0 then Some (Quiet (), s)
      else
        let (env, s1) = get_jni_env J t s in
        if \<not> env then Some (Failed (), s1)
        else neonClientSetPongCallback t client callback s1)"

definition neon_client_set_session_config_callback ::
  "jvm \<Rightarrow> thread \<Rightarrow> jlong \<Rightarrow> jlong \<Rightarrow> neon_state \<Rightarrow> unit outcome" where
  "neon_client_set_session_config_callback J t client callback s =
     (if client = 0 then Some (Quiet (), s)
      else
        let (env, s1) = get_jni_env J t s in
        if \<not> env then Some (Failed (), s1)
        else neonClientSetSessionConfigCallback t client callback s1)"

definition neon_client_set_packet_type_registry_callback ::
  "jvm \<Rightarrow> thread \<Rightarrow> jlong \<Rightarrow> jlong \<Rightarrow> neon_state \<Rightarrow> unit outcome" where
  "neon_client_set_packet_type_registry_callback J t client callback s =
     (if client = 0 then Some (Quiet (), s)
      else
        let (env, s1) = get_jni_env J t s in
        if \<not> env then Some (Failed (), s1)
        else neonClientSetPacketTypeRegistryCallback t client callback s1)"

definition neon_client_set_unhandled_packet_callback ::
  "jvm \<Rightarrow> thread \<Rightarrow> jlong \<Rightarrow> jlong \<Rightarrow> neon_state \<Rightarrow> unit outcome" where
  "neon_client_set_unhandled_packet_callback J t client callback s =
     (if client = 0 then Some (Quiet (), s)
      else
        let (env, s1) = get_jni_env J t s in
        if \<not> env then Some (Failed (), s1)
        else neonClientSetUnhandledPacketCallback t client callback s1)"

definition neon_client_set_wrong_destination_callback ::
  "jvm \<Rightarrow> thread \<Rightarrow> jlong \<Rightarrow> jlong \<Rightarrow> neon_state \<Rightarrow> unit outcome" where
  "neon_client_set_wrong_destination_callback J t client callback s =
     (if client = 0 then Some (Quiet (), s)
      else
        let (env, s1) = get_jni_env J t s in
        if \<not> env then Some (Failed (), s1)
        else neonClientSetWrongDestinationCallback t client callback s1)"

definition neon_client_free :: "jvm \<Rightarrow> thread \<Rightarrow> jlong \<Rightarrow> neon_state \<Rightarrow> unit outcome" where
  "neon_client_free J t client s =
     (if client = 0 then Some (Quiet (), s)
      else
        let (env, s1) = get_jni_env J t s in
        if \<not> env then Some (Failed (), s1)
        else neonClientFree J t client s1)"

definition neon_host_new ::
  "jvm \<Rightarrow> thread \<Rightarrow> 32 word \<Rightarrow> string \<Rightarrow> neon_state \<Rightarrow> jlong outcome" where
  "neon_host_new J t session_id relay_addr s =
     (let (env, s1) = get_jni_env J t s in
      if \<not> env then Some (Failed 0, s1)
      else if \<not> NewStringUTF_ok J relay_addr
      then Some (Failed 0, set_error t ''Failed to create relay address string'' s1)
      else neonHostNew J t session_id (Some relay_addr) s1)"

definition neon_host_start :: "jvm \<Rightarrow> thread \<Rightarrow> jlong \<Rightarrow> neon_state \<Rightarrow> bool outcome" where
  "neon_host_start J t host s =
     (if host = 0 then Some (Failed False, set_error t ''Invalid host handle'' s)
      else
        let (env, s1) = get_jni_env J t s in
        if \<not> env then Some (Failed False, s1)
        else convert (\<lambda>result. result = True) (neonHostStart J t host s1))"

definition neon_host_process_packets ::
  "jvm \<Rightarrow> thread \<Rightarrow> jlong \<Rightarrow> neon_state \<Rightarrow> jint outcome" where
  "neon_host_process_packets J t host s =
     (if host = 0 then Some (Failed (- 1), set_error t ''Invalid host handle'' s)
      else
        let (env, s1) = get_jni_env J t s in
        if \<not> env then Some (Failed (- 1), s1)
        else neonHostProcessPackets J t host s1)"

definition neon_host_get_session_id ::
  "jvm \<Rightarrow> thread \<Rightarrow> jlong \<Rightarrow> neon_state \<Rightarrow> 32 word outcome" where
  "neon_host_get_session_id J t host s =
     (if host = 0 then Some (Quiet 0, s)
      else
        let (env, s1) = get_jni_env J t s in
        if \<not> env then Some (Failed 0, s1)
        else convert ucast (neonHostGetSessionId J t host s1))"

text \<open>\<^verbatim>\<open>size_t\<close> result: the signed \<^verbatim>\<open>jint\<close> is extended to 64 bits.\<close>

definition neon_host_get_client_count ::
  "jvm \<Rightarrow> thread \<Rightarrow> jlong \<Rightarrow> neon_state \<Rightarrow> 64 word outcome" where
  "neon_host_get_client_count J t host s =
     (if host = 0 then Some (Quiet 0, s)
      else
        let (env, s1) = get_jni_env J t s in
        if \<not> env then Some (Failed 0, s1)
        else convert scast (neonHostGetClientCount J t host s1))"

definition neon_host_set_client_connect_callback ::
  "jvm \<Rightarrow> thread \<Rightarrow> jlong \<Rightarrow> jlong \<Rightarrow> neon_state \<Rightarrow> unit outcome" where
  "neon_host_set_client_connect_callback J t host callback s =
     (if host = 0 then Some (Quiet (), s)
      else
        let (env, s1) = get_jni_env J t s in
        if \<not> env then Some (Failed (), s1)
        else neonHostSetClientConnectCallback t host callback s1)"

definition neon_host_set_client_deny_callback ::
  "jvm \<Rightarrow> thread \<Rightarrow> jlong \<Rightarrow> jlong \<Rightarrow> neon_state \<Rightarrow> unit outcome" where
  "neon_host_set_client_deny_callback J t host callback s =
     (if host = 0 then Some (Quiet (), s)
      else
        let (env, s1) = get_jni_env J t s in
        if \<not> env then Some (Failed (), s1)
        else neonHostSetClientDenyCallback t host callback s1)"

definition neon_host_set_ping_received_callback ::
  "jvm \<Rightarrow> thread \<Rightarrow> jlong \<Rightarrow> jlong \<Rightarrow> neon_state \<Rightarrow> unit outcome" where
  "neon_host_set_ping_received_callback J t host callback s =
     (if host = 0 then Some (Quiet (), s)
      else
        let (env, s1) = get_jni_env J t s in
        if \<not> env then Some (Failed (), s1)
        else neonHostSetPingReceivedCallback t host callback s1)"

definition neon_host_set_unhandled_packet_callback ::
  "jvm \<Rightarrow> thread \<Rightarrow> jlong \<Rightarrow> jlong \<Rightarrow> neon_state \<Rightarrow> unit outcome" where
  "neon_host_set_unhandled_packet_callback J t host callback s =
     (if host = 0 then Some (Quiet (), s)
      else
        let (env, s1) = get_jni_env J t s in
        if \<not> env then Some (Failed (), s1)
        else neonHostSetUnhandledPacketCallback t host callback s1)"

definition neon_host_free :: "jvm \<Rightarrow> thread \<Rightarrow> jlong \<Rightarrow> neon_state \<Rightarrow> unit outcome" where
  "neon_host_free J t host s =
     (if host = 0 then Some (Quiet (), s)
      else
        let (env, s1) = get_jni_env J t s in
        if \<not> env then Some (Failed (), s1)
        else neonHostFree J t host s1)"

subsection \<open>One call of the library\<close>

text \<open>
  Every exported function as a value, and \<open>exec\<close>, which runs one call on a thread. The
  library has no threads of its own: a call runs on the thread of its caller and returns
  before that thread makes its next call.
\<close>

datatype retval =
    RetVoid
  | RetBool bool
  | RetInt "32 word"
  | RetByte "8 word"
  | RetLong "64 word"
  | RetString "string option"

datatype client_entry =
    Call_neonClientNew "string option"
  | Call_neonClientConnect jlong jint "string option"
  | Call_neonClientProcessPackets jlong
  | Call_neonClientGetId jlong
  | Call_neonClientGetSessionId jlong
  | Call_neonClientIsConnected jlong
  | Call_neonClientSendPing jlong
  | Call_neonClientSetAutoPing jlong bool
  | Call_neonClientSetPongCallback jlong jlong
  | Call_neonClientSetSessionConfigCallback jlong jlong
  | Call_neonClientSetPacketTypeRegistryCallback jlong jlong
  | Call_neonClientSetUnhandledPacketCallback jlong jlong
  | Call_neonClientSetWrongDestinationCallback jlong jlong
  | Call_neonClientFree jlong
  | Call_neonGetLastError

datatype host_entry =
    Call_neonHostNew jint "string option"
  | Call_neonHostStart jlong
  | Call_neonHostProcessPackets jlong
  | Call_neonHostGetSessionId jlong
  | Call_neonHostGetClientCount jlong
  | Call_neonHostSetClientConnectCallback jlong jlong
  | Call_neonHostSetClientDenyCallback jlong jlong
  | Call_neonHostSetPingReceivedCallback jlong jlong
  | Call_neonHostSetUnhandledPacketCallback jlong jlong
  | Call_neonHostFree jlong

datatype client_api =
    Call_neon_client_new string
  | Call_neon_client_connect jlong "32 word" string
  | Call_neon_client_process_packets jlong
  | Call_neon_client_get_id jlong
  | Call_neon_client_get_session_id jlong
  | Call_neon_client_is_connected jlong
  | Call_neon_client_send_ping jlong
  | Call_neon_client_set_auto_ping jlong bool
  | Call_neon_client_set_pong_callback jlong jlong
  | Call_neon_client_set_session_config_callback jlong jlong
  | Call_neon_client_set_packet_type_registry_callback jlong jlong
  | Call_neon_client_set_unhandled_packet_callback jlong jlong
  | Call_neon_client_set_wrong_destination_callback jlong jlong
  | Call_neon_client_free jlong

datatype host_api =
    Call_neon_host_new "32 word" string
  | Call_neon_host_start jlong
  | Call_neon_host_process_packets jlong
  | Call_neon_host_get_session_id jlong
  | Call_neon_host_get_client_count jlong
  | Call_neon_host_set_client_connect_callback jlong jlong
  | Call_neon_host_set_client_deny_callback jlong jlong
  | Call_neon_host_set_ping_received_callback jlong jlong
  | Call_neon_host_set_unhandled_packet_callback jlong jlong
  | Call_neon_host_free jlong

datatype api_call =
    Call_JNI_OnLoad
  | Call_JNI_OnUnload
  | ClientEntry client_entry
  | HostEntry host_entry
  | ClientApi client_api
  | HostApi host_api
  | Call_neon_get_last_error

primrec exec_client_entry ::
  "jvm \<Rightarrow> thread \<Rightarrow> client_entry \<Rightarrow> neon_state \<Rightarrow> retval outcome" where
  "exec_client_entry J t (Call_neonClientNew name) s =
     convert RetLong (neonClientNew J t name s)"
| "exec_client_entry J t (Call_neonClientConnect p sid a) s =
     convert RetBool (neonClientConnect J t p sid a s)"
| "exec_client_entry J t (Call_neonClientProcessPackets p) s =
     convert RetInt (neonClientProcessPackets J t p s)"
| "exec_client_entry J t (Call_neonClientGetId p) s =
     convert RetInt (neonClientGetId J t p s)"
| "exec_client_entry J t (Call_neonClientGetSessionId p) s =
     convert RetInt (neonClientGetSessionId J t p s)"
| "exec_client_entry J t (Call_neonClientIsConnected p) s =
     convert RetBool (neonClientIsConnected J t p s)"
| "exec_client_entry J t (Call_neonClientSendPing p) s =
     convert RetBool (neonClientSendPing J t p s)"
| "exec_client_entry J t (Call_neonClientSetAutoPing p b) s =
     convert (\<lambda>_. RetVoid) (neonClientSetAutoPing J t p b s)"
| "exec_client_entry J t (Call_neonClientSetPongCallback p c) s =
     convert (\<lambda>_. RetVoid) (neonClientSetPongCallback t p c s)"
| "exec_client_entry J t (Call_neonClientSetSessionConfigCallback p c) s =
     convert (\<lambda>_. RetVoid) (neonClientSetSessionConfigCallback t p c s)"
| "exec_client_entry J t (Call_neonClientSetPacketTypeRegistryCallback p c) s =
     convert (\<lambda>_. RetVoid) (neonClientSetPacketTypeRegistryCallback t p c s)"
| "exec_client_entry J t (Call_neonClientSetUnhandledPacketCallback p c) s =
     convert (\<lambda>_. RetVoid) (neonClientSetUnhandledPacketCallback t p c s)"
| "exec_client_entry J t (Call_neonClientSetWrongDestinationCallback p c) s =
     convert (\<lambda>_. RetVoid) (neonClientSetWrongDestinationCallback t p c s)"
| "exec_client_entry J t (Call_neonClientFree p) s =
     convert (\<lambda>_. RetVoid) (neonClientFree J t p s)"
| "exec_client_entry J t Call_neonGetLastError s =
     Some (Ok (RetString (neonGetLastError J t s)), s)"

primrec exec_host_entry ::
  "jvm \<Rightarrow> thread \<Rightarrow> host_entry \<Rightarrow> neon_state \<Rightarrow> retval outcome" where
  "exec_host_entry J t (Call_neonHostNew sid a) s = convert RetLong (neonHostNew J t sid a s)"
| "exec_host_entry J t (Call_neonHostStart p) s = convert RetBool (neonHostStart J t p s)"
| "exec_host_entry J t (Call_neonHostProcessPackets p) s =
     convert RetInt (neonHostProcessPackets J t p s)"
| "exec_host_entry J t (Call_neonHostGetSessionId p) s =
     convert RetInt (neonHostGetSessionId J t p s)"
| "exec_host_entry J t (Call_neonHostGetClientCount p) s =
     convert RetInt (neonHostGetClientCount J t p s)"
| "exec_host_entry J t (Call_neonHostSetClientConnectCallback p c) s =
     convert (\<lambda>_. RetVoid) (neonHostSetClientConnectCallback t p c s)"
| "exec_host_entry J t (Call_neonHostSetClientDenyCallback p c) s =
     convert (\<lambda>_. RetVoid) (neonHostSetClientDenyCallback t p c s)"
| "exec_host_entry J t (Call_neonHostSetPingReceivedCallback p c) s =
     convert (\<lambda>_. RetVoid) (neonHostSetPingReceivedCallback t p c s)"
| "exec_host_entry J t (Call_neonHostSetUnhandledPacketCallback p c) s =
     convert (\<lambda>_. RetVoid) (neonHostSetUnhandledPacketCallback t p c s)"
| "exec_host_entry J t (Call_neonHostFree p) s =
     convert (\<lambda>_. RetVoid) (neonHostFree J t p s)"

primrec exec_client_api ::
  "jvm \<Rightarrow> thread \<Rightarrow> client_api \<Rightarrow> neon_state \<Rightarrow> retval outcome" where
  "exec_client_api J t (Call_neon_client_new name) s =
     convert RetLong (neon_client_new J t name s)"
| "exec_client_api J t (Call_neon_client_connect p sid a) s =
     convert RetBool (neon_client_connect J t p sid a s)"
| "exec_client_api J t (Call_neon_client_process_packets p) s =
     convert RetInt (neon_client_process_packets J t p s)"
| "exec_client_api J t (Call_neon_client_get_id p) s =
     convert RetByte (neon_client_get_id J t p s)"
| "exec_client_api J t (Call_neon_client_get_session_id p) s =
     convert RetInt (neon_client_get_session_id J t p s)"
| "exec_client_api J t (Call_neon_client_is_connected p) s =
     convert RetBool (neon_client_is_connected J t p s)"
| "exec_client_api J t (Call_neon_client_send_ping p) s =
     convert RetBool (neon_client_send_ping J t p s)"
| "exec_client_api J t (Call_neon_client_set_auto_ping p b) s =
     convert (\<lambda>_. RetVoid) (neon_client_set_auto_ping J t p b s)"
| "exec_client_api J t (Call_neon_client_set_pong_callback p c) s =
     convert (\<lambda>_. RetVoid) (neon_client_set_pong_callback J t p c s)"
| "exec_client_api J t (Call_neon_client_set_session_config_callback p c) s =
     convert (\<lambda>_. RetVoid) (neon_client_set_session_config_callback J t p c s)"
| "exec_client_api J t (Call_neon_client_set_packet_type_registry_callback p c) s =
     convert (\<lambda>_. RetVoid) (neon_client_set_packet_type_registry_callback J t p c s)"
| "exec_client_api J t (Call_neon_client_set_unhandled_packet_callback p c) s =
     convert (\<lambda>_. RetVoid) (neon_client_set_unhandled_packet_callback J t p c s)"
| "exec_client_api J t (Call_neon_client_set_wrong_destination_callback p c) s =
     convert (\<lambda>_. RetVoid) (neon_client_set_wrong_destination_callback J t p c s)"
| "exec_client_api J t (Call_neon_client_free p) s =
     convert (\<lambda>_. RetVoid) (neon_client_free J t p s)"

primrec exec_host_api ::
  "jvm \<Rightarrow> thread \<Rightarrow> host_api \<Rightarrow> neon_state \<Rightarrow> retval outcome" where
  "exec_host_api J t (Call_neon_host_new sid a) s =
     convert RetLong (neon_host_new J t sid a s)"
| "exec_host_api J t (Call_neon_host_start p) s = convert RetBool (neon_host_start J t p s)"
| "exec_host_api J t (Call_neon_host_process_packets p) s =
     convert RetInt (neon_host_process_packets J t p s)"
| "exec_host_api J t (Call_neon_host_get_session_id p) s =
     convert RetInt (neon_host_get_session_id J t p s)"
| "exec_host_api J t (Call_neon_host_get_client_count p) s =
     convert RetLong (neon_host_get_client_count J t p s)"
| "exec_host_api J t (Call_neon_host_set_client_connect_callback p c) s =
     convert (\<lambda>_. RetVoid) (neon_host_set_client_connect_callback J t p c s)"
| "exec_host_api J t (Call_neon_host_set_client_deny_callback p c) s =
     convert (\<lambda>_. RetVoid) (neon_host_set_client_deny_callback J t p c s)"
| "exec_host_api J t (Call_neon_host_set_ping_received_callback p c) s =
     convert (\<lambda>_. RetVoid) (neon_host_set_ping_received_callback J t p c s)"
| "exec_host_api J t (Call_neon_host_set_unhandled_packet_callback p c) s =
     convert (\<lambda>_. RetVoid) (neon_host_set_unhandled_packet_callback J t p c s)"
| "exec_host_api J t (Call_neon_host_free p) s =
     convert (\<lambda>_. RetVoid) (neon_host_free J t p s)"

primrec exec :: "jvm \<Rightarrow> thread \<Rightarrow> api_call \<Rightarrow> neon_state \<Rightarrow> retval outcome" where
  "exec J t Call_JNI_OnLoad s = convert RetInt (JNI_OnLoad J t s)"
| "exec J t Call_JNI_OnUnload s = convert (\<lambda>_. RetVoid) (JNI_OnUnload J t s)"
| "exec J t (ClientEntry c) s = exec_client_entry J t c s"
| "exec J t (HostEntry c) s = exec_host_entry J t c s"
| "exec J t (ClientApi c) s = exec_client_api J t c s"
| "exec J t (HostApi c) s = exec_host_api J t c s"
| "exec J t Call_neon_get_last_error s =
     Some (Ok (RetString (neon_get_last_error t s)), s)"

subsection \<open>The callback slots of a handle\<close>

text \<open>
  One name per notification, the field of the handle that holds its callback, and the
  setter of that field in each layer.
\<close>

datatype client_event = Pong | SessionConfig | PacketTypeRegistry | UnhandledPacket | WrongDestination

datatype host_event = ClientConnect | ClientDeny | PingReceived | HostUnhandledPacket

primrec client_callback :: "client_event \<Rightarrow> NeonClientHandle \<Rightarrow> jlong" where
  "client_callback Pong h = pongCallback h"
| "client_callback SessionConfig h = sessionConfigCallback h"
| "client_callback PacketTypeRegistry h = packetTypeRegistryCallback h"
| "client_callback UnhandledPacket h = unhandledPacketCallback h"
| "client_callback WrongDestination h = wrongDestinationCallback h"

primrec host_callback :: "host_event \<Rightarrow> NeonHostHandle \<Rightarrow> jlong" where
  "host_callback ClientConnect h = clientConnectCallback h"
| "host_callback ClientDeny h = clientDenyCallback h"
| "host_callback PingReceived h = pingReceivedCallback h"
| "host_callback HostUnhandledPacket h = host_unhandledPacketCallback h"

primrec neonClientSetCallback ::
  "client_event \<Rightarrow> thread \<Rightarrow> jlong \<Rightarrow> jlong \<Rightarrow> neon_state \<Rightarrow> unit outcome" where
  "neonClientSetCallback Pong = neonClientSetPongCallback"
| "neonClientSetCallback SessionConfig = neonClientSetSessionConfigCallback"
| "neonClientSetCallback PacketTypeRegistry = neonClientSetPacketTypeRegistryCallback"
| "neonClientSetCallback UnhandledPacket = neonClientSetUnhandledPacketCallback"
| "neonClientSetCallback WrongDestination = neonClientSetWrongDestinationCallback"

primrec neonHostSetCallback ::
  "host_event \<Rightarrow> thread \<Rightarrow> jlong \<Rightarrow> jlong \<Rightarrow> neon_state \<Rightarrow> unit outcome" where
  "neonHostSetCallback ClientConnect = neonHostSetClientConnectCallback"
| "neonHostSetCallback ClientDeny = neonHostSetClientDenyCallback"
| "neonHostSetCallback PingReceived = neonHostSetPingReceivedCallback"
| "neonHostSetCallback HostUnhandledPacket = neonHostSetUnhandledPacketCallback"

primrec neon_client_set_callback ::
  "client_event \<Rightarrow> jvm \<Rightarrow> thread \<Rightarrow> jlong \<Rightarrow> jlong \<Rightarrow> neon_state \<Rightarrow> unit outcome" where
  "neon_client_set_callback Pong = neon_client_set_pong_callback"
| "neon_client_set_callback SessionConfig = neon_client_set_session_config_callback"
| "neon_client_set_callback PacketTypeRegistry = neon_client_set_packet_type_registry_callback"
| "neon_client_set_callback UnhandledPacket = neon_client_set_unhandled_packet_callback"
| "neon_client_set_callback WrongDestination = neon_client_set_wrong_destination_callback"

primrec neon_host_set_callback ::
  "host_event \<Rightarrow> jvm \<Rightarrow> thread \<Rightarrow> jlong \<Rightarrow> jlong \<Rightarrow> neon_state \<Rightarrow> unit outcome" where
  "neon_host_set_callback ClientConnect = neon_host_set_client_connect_callback"
| "neon_host_set_callback ClientDeny = neon_host_set_client_deny_callback"
| "neon_host_set_callback PingReceived = neon_host_set_ping_received_callback"
| "neon_host_set_callback HostUnhandledPacket = neon_host_set_unhandled_packet_callback"

subsection \<open>The address format in the words of the specification\<close>

text \<open>
  The specification's reading of a relay address: exactly \<open>host:port\<close>, the host non-empty,
  free of colons and at most 255 bytes long, the port a decimal integer between 0 and
  65535, and nothing else in the token.
\<close>

definition spec_host_port :: "string \<Rightarrow> bool" where
  "spec_host_port s =
     (let host = takeWhile (\<lambda>c. c \<noteq> CHR '':'') s;
          rest = drop (length host) s;
          port = drop 1 rest
      in host \<noteq> [] \<and> length host \<le> 255 \<and> rest \<noteq> [] \<and> port \<noteq> []
         \<and> list_all isdigit port \<and> decimal port \<le> 65535)"

text \<open>
  The shape of the strings that \<open>sscanf_relay\<close> converts in full: a host as above, a colon,
  any white space, an optional sign, one digit, and then anything.
\<close>

definition scanned_form ::
  "string \<Rightarrow> string \<Rightarrow> string \<Rightarrow> string \<Rightarrow> char \<Rightarrow> string \<Rightarrow> bool" where
  "scanned_form s host ws sg d rest =
     (s = host @ CHR '':'' # ws @ sg @ d # rest \<and> host \<noteq> [] \<and> length host \<le> 255
      \<and> CHR '':'' \<notin> set host \<and> list_all isspace ws
      \<and> (sg = [] \<or> sg = ''+'' \<or> sg = ''-'') \<and> isdigit d)"

subsection \<open>What a call does to the error channel\<close>

text \<open>
  The effect a call that returned \<open>r\<close> on thread \<open>t\<close> may have on the error buffers: a
  \<open>Failed\<close> return has put a non-empty message into the buffer of \<open>t\<close> and changed no
  other buffer; any other return has changed no buffer.
\<close>

definition err_effect :: "thread \<Rightarrow> 'a ret \<Rightarrow> neon_state \<Rightarrow> neon_state \<Rightarrow> bool" where
  "err_effect t r s s' =
     (if is_Failed r
      then (\<exists>msg. msg \<noteq> [] \<and> g_error_buffer s' = (g_error_buffer s)(t := msg))
      else g_error_buffer s' = g_error_buffer s)"

text \<open>
  The return values by which a caller sees that creating a client or a host, connect,
  send-ping or start has failed: the null handle and \<^verbatim>\<open>false\<close>. No other function
  of the file has a value that it returns on failure only (\<open>-1\<close> and 0 may be what the
  managed method returned, \<^verbatim>\<open>false\<close> is what is-connected returns for a client that is
  not connected).
\<close>

definition client_entry_failure :: "client_entry \<Rightarrow> retval \<Rightarrow> bool" where
  "client_entry_failure c v =
     (case c of
        Call_neonClientNew name \<Rightarrow> v = RetLong 0
      | Call_neonClientConnect p sid a \<Rightarrow> v = RetBool False
      | Call_neonClientSendPing p \<Rightarrow> v = RetBool False
      | _ \<Rightarrow> False)"

definition host_entry_failure :: "host_entry \<Rightarrow> retval \<Rightarrow> bool" where
  "host_entry_failure c v =
     (case c of
        Call_neonHostNew sid a \<Rightarrow> v = RetLong 0
      | Call_neonHostStart p \<Rightarrow> v = RetBool False
      | _ \<Rightarrow> False)"

definition client_api_failure :: "client_api \<Rightarrow> retval \<Rightarrow> bool" where
  "client_api_failure c v =
     (case c of
        Call_neon_client_new name \<Rightarrow> v = RetLong 0
      | Call_neon_client_connect p sid a \<Rightarrow> v = RetBool False
      | Call_neon_client_send_ping p \<Rightarrow> v = RetBool False
      | _ \<Rightarrow> False)"

definition host_api_failure :: "host_api \<Rightarrow> retval \<Rightarrow> bool" where
  "host_api_failure c v =
     (case c of
        Call_neon_host_new sid a \<Rightarrow> v = RetLong 0
      | Call_neon_host_start p \<Rightarrow> v = RetBool False
      | _ \<Rightarrow> False)"

definition failure_return :: "api_call \<Rightarrow> retval \<Rightarrow> bool" where
  "failure_return c v =
     (case c of
        ClientEntry x \<Rightarrow> client_entry_failure x v
      | HostEntry x \<Rightarrow> host_entry_failure x v
      | ClientApi x \<Rightarrow> client_api_failure x v
      | HostApi x \<Rightarrow> host_api_failure x v
      | _ \<Rightarrow> False)"

subsection \<open>A sample runtime and sample states\<close>

text \<open>
  \<open>jvm_ok\<close> is a runtime in which every lookup and conversion succeeds and no managed
  method throws; in \<open>jvm_throwing\<close> every managed method throws. \<open>loaded_state\<close> is the
  state after \<^verbatim>\<open>JNI_OnLoad\<close>, \<open>client_state\<close> the state after a client was created on
  top of it, \<open>host_state\<close> the state after a host was created.
\<close>

definition jvm_ok :: jvm where
  "jvm_ok =
     \<lparr>GetEnv_status = (\<lambda>_. JNI_OK), Attach_status = (\<lambda>_. JNI_OK),
      FindClass_ok = (\<lambda>_. True), NewStringUTF_ok = (\<lambda>_. True),
      GetStringUTFChars_ok = (\<lambda>_. True), GetMethodID_ok = (\<lambda>_ _ _. True),
      NewObject_result = (\<lambda>_ _. 7), void_method = (\<lambda>_ _ _. Returns ()),
      int_method = (\<lambda>_ _. Returns 0), boolean_method = (\<lambda>_ _. Returns False),
      malloc_result = 4096\<rparr>"

definition jvm_throwing :: jvm where
  "jvm_throwing =
     jvm_ok\<lparr>void_method := (\<lambda>_ _ _. Throws ()), int_method := (\<lambda>_ _. Throws 0),
            boolean_method := (\<lambda>_ _. Throws False)\<rparr>"

definition loaded_state :: neon_state where
  "loaded_state =
     initial_state\<lparr>g_jvm := True, g_neonClientClass := Some NeonClient,
                   g_neonHostClass := Some NeonHost\<rparr>"

definition client_state :: neon_state where
  "client_state =
     loaded_state
       \<lparr>clients := [4096 \<mapsto> \<lparr>javaObject = 7, pongCallback = 0, sessionConfigCallback = 0,
                              packetTypeRegistryCallback = 0, unhandledPacketCallback = 0,
                              wrongDestinationCallback = 0\<rparr>],
        global_refs := [7],
        trace := [Constructed NeonClient [ArgString ''Alice'']]\<rparr>"

definition host_state :: neon_state where
  "host_state =
     loaded_state
       \<lparr>hosts := [4096 \<mapsto> \<lparr>host_javaObject = 7, clientConnectCallback = 0,
                            clientDenyCallback = 0, pingReceivedCallback = 0,
                            host_unhandledPacketCallback = 0\<rparr>],
        global_refs := [7],
        trace := [Constructed NeonHost [ArgInt 42, ArgString ''0.0.0.0'', ArgInt 7777]]\<rparr>"

text \<open>
  \<open>bad_address_state\<close> is \<open>client_state\<close> after thread 0 called connect with the
  address \<open>bad-address\<close>.
\<close>

definition bad_address_state :: neon_state where
  "bad_address_state =
     set_error 0 ''Invalid relay address format (expected host:port)'' client_state"

text \<open>
  \<open>left_pending t ev s\<close> is \<open>s\<close> after the managed code of \<open>ev\<close> ran on thread \<open>t\<close> and
  threw, with nothing else done: the event is in the trace and the exception is pending.
\<close>

definition left_pending :: "thread \<Rightarrow> jni_event \<Rightarrow> neon_state \<Rightarrow> neon_state" where
  "left_pending t ev s = s\<lparr>pending := (pending s)(t := True), trace := trace s @ [ev]\<rparr>"

section \<open>Properties\<close>

subsection \<open>The sample states are states of the library\<close>

lemma sample_states_reached:
  "JNI_OnLoad jvm_ok 0 initial_state = Some (Ok 0x10008, loaded_state)
   \<and> neon_client_new jvm_ok 0 ''Alice'' loaded_state = Some (Ok 4096, client_state)
   \<and> neon_host_new jvm_ok 0 42 ''0.0.0.0:7777'' loaded_state = Some (Ok 4096, host_state)"
  by (simp add: JNI_OnLoad_def jvm_ok_def loaded_state_def initial_state_def
      neon_client_new_def get_jni_env_def neonClientNew_def NewObject_def NewGlobalRef_def
      client_state_def neon_host_new_def neonHostNew_def host_state_def sscanf_relay_def
      isspace_def isdigit_def decimal_def digit_value_def)

subsection \<open>Null and zero handles\<close>

text \<open>
  Claim C5. With a null handle the query operations do not fault and return their
  sentinel: \<open>is_connected\<close> returns false, \<open>process_packets\<close> returns \<open>-1\<close> and
  \<open>get_client_count\<close> returns 0, in the C API and at the JNI entry points alike.
\<close>

theorem null_handle_queries_return_sentinels:
  "neon_client_is_connected J t 0 s = Some (Quiet False, s)
   \<and> neonClientIsConnected J t 0 s = Some (Quiet False, s)
   \<and> neon_client_process_packets J t 0 s
       = Some (Failed (- 1), set_error t ''Invalid client handle'' s)
   \<and> neonClientProcessPackets J t 0 s
       = Some (Failed (- 1), set_error t ''Invalid client handle'' s)
   \<and> neon_host_process_packets J t 0 s
       = Some (Failed (- 1), set_error t ''Invalid host handle'' s)
   \<and> neonHostProcessPackets J t 0 s
       = Some (Failed (- 1), set_error t ''Invalid host handle'' s)
   \<and> neon_host_get_client_count J t 0 s = Some (Quiet 0, s)
   \<and> neonHostGetClientCount J t 0 s
       = Some (Failed 0, set_error t ''Invalid host handle'' s)"
  by (simp add: neon_client_is_connected_def neonClientIsConnected_def
      neon_client_process_packets_def neonClientProcessPackets_def
      neon_host_process_packets_def neonHostProcessPackets_def
      neon_host_get_client_count_def neonHostGetClientCount_def)

text \<open>
  Claim C4, as stated: \<open>get_id\<close> and \<open>get_session_id\<close> on the null handle return \<open>-1\<close>.
  The C API functions return 0 there.
\<close>

theorem get_id_null_handle_counterexample:
  "neon_client_get_id jvm_ok 0 0 initial_state = Some (Quiet 0, initial_state)
   \<and> (0 :: 8 word) \<noteq> - 1
   \<and> neon_client_get_session_id jvm_ok 0 0 initial_state = Some (Quiet 0, initial_state)
   \<and> (0 :: 32 word) \<noteq> - 1"
  by (simp add: neon_client_get_id_def neon_client_get_session_id_def)

text \<open>
  Claim C4, amended. On the zero handle the JNI entry points \<open>neonClientGetId\<close> and
  \<open>neonClientGetSessionId\<close> return \<open>-1\<close> and record "Invalid client handle"; on the null
  handle the C API functions \<open>neon_client_get_id\<close> and \<open>neon_client_get_session_id\<close>
  return 0 and record nothing.
\<close>

theorem get_id_null_handle_by_layer:
  "neonClientGetId J t 0 s = Some (Failed (- 1), set_error t ''Invalid client handle'' s)
   \<and> neonClientGetSessionId J t 0 s
       = Some (Failed (- 1), set_error t ''Invalid client handle'' s)
   \<and> neon_client_get_id J t 0 s = Some (Quiet 0, s)
   \<and> neon_client_get_session_id J t 0 s = Some (Quiet 0, s)"
  by (simp add: neonClientGetId_def neonClientGetSessionId_def neon_client_get_id_def
      neon_client_get_session_id_def)

text \<open>
  Claim C3, as stated: with a null or zero handle, set-auto-ping and the callback setters
  do not write the error channel. The JNI entry points do write it.
\<close>

theorem zero_handle_setter_counterexample:
  "neonClientSetAutoPing jvm_ok 0 0 True initial_state
     = Some (Failed (), set_error 0 ''Invalid client handle'' initial_state)
   \<and> neonClientSetPongCallback 0 0 5 initial_state
     = Some (Failed (), set_error 0 ''Invalid client handle'' initial_state)
   \<and> g_error_buffer (set_error 0 ''Invalid client handle'' initial_state) 0
       = ''Invalid client handle''
   \<and> g_error_buffer initial_state 0 = []"
  by (simp add: neonClientSetAutoPing_def neonClientSetPongCallback_def set_error_def
      initial_state_def)

text \<open>
  Claim C3, amended. On the null handle the C API's set-auto-ping and callback setters
  are silent no-ops: the state is returned as it was. On the zero handle the JNI entry
  points of the same operations run nothing on the managed side and change no handle, but
  record "Invalid client handle" (client) or "Invalid host handle" (host) in the calling
  thread's error channel.
\<close>

theorem null_handle_setters:
  "neon_client_set_auto_ping J t 0 enabled s = Some (Quiet (), s)
   \<and> neon_client_set_pong_callback J t 0 cb s = Some (Quiet (), s)
   \<and> neon_client_set_session_config_callback J t 0 cb s = Some (Quiet (), s)
   \<and> neon_client_set_packet_type_registry_callback J t 0 cb s = Some (Quiet (), s)
   \<and> neon_client_set_unhandled_packet_callback J t 0 cb s = Some (Quiet (), s)
   \<and> neon_client_set_wrong_destination_callback J t 0 cb s = Some (Quiet (), s)
   \<and> neon_host_set_client_connect_callback J t 0 cb s = Some (Quiet (), s)
   \<and> neon_host_set_client_deny_callback J t 0 cb s = Some (Quiet (), s)
   \<and> neon_host_set_ping_received_callback J t 0 cb s = Some (Quiet (), s)
   \<and> neon_host_set_unhandled_packet_callback J t 0 cb s = Some (Quiet (), s)
   \<and> neonClientSetAutoPing J t 0 enabled s
       = Some (Failed (), set_error t ''Invalid client handle'' s)
   \<and> neonClientSetPongCallback t 0 cb s
       = Some (Failed (), set_error t ''Invalid client handle'' s)
   \<and> neonClientSetSessionConfigCallback t 0 cb s
       = Some (Failed (), set_error t ''Invalid client handle'' s)
   \<and> neonClientSetPacketTypeRegistryCallback t 0 cb s
       = Some (Failed (), set_error t ''Invalid client handle'' s)
   \<and> neonClientSetUnhandledPacketCallback t 0 cb s
       = Some (Failed (), set_error t ''Invalid client handle'' s)
   \<and> neonClientSetWrongDestinationCallback t 0 cb s
       = Some (Failed (), set_error t ''Invalid client handle'' s)
   \<and> neonHostSetClientConnectCallback t 0 cb s
       = Some (Failed (), set_error t ''Invalid host handle'' s)
   \<and> neonHostSetClientDenyCallback t 0 cb s
       = Some (Failed (), set_error t ''Invalid host handle'' s)
   \<and> neonHostSetPingReceivedCallback t 0 cb s
       = Some (Failed (), set_error t ''Invalid host handle'' s)
   \<and> neonHostSetUnhandledPacketCallback t 0 cb s
       = Some (Failed (), set_error t ''Invalid host handle'' s)
   \<and> trace (set_error t msg s) = trace s
   \<and> clients (set_error t msg s) = clients s
   \<and> hosts (set_error t msg s) = hosts s
   \<and> pending (set_error t msg s) = pending s"
  by (simp add: neon_client_set_auto_ping_def neon_client_set_pong_callback_def
      neon_client_set_session_config_callback_def
      neon_client_set_packet_type_registry_callback_def
      neon_client_set_unhandled_packet_callback_def
      neon_client_set_wrong_destination_callback_def
      neon_host_set_client_connect_callback_def neon_host_set_client_deny_callback_def
      neon_host_set_ping_received_callback_def neon_host_set_unhandled_packet_callback_def
      neonClientSetAutoPing_def neonClientSetPongCallback_def
      neonClientSetSessionConfigCallback_def neonClientSetPacketTypeRegistryCallback_def
      neonClientSetUnhandledPacketCallback_def neonClientSetWrongDestinationCallback_def
      neonHostSetClientConnectCallback_def neonHostSetClientDenyCallback_def
      neonHostSetPingReceivedCallback_def neonHostSetUnhandledPacketCallback_def
      set_error_def)

subsection \<open>Callback registration\<close>

lemma get_jni_env_available:
  "fst (get_jni_env J t s) \<Longrightarrow> snd (get_jni_env J t s) = s"
  by (simp add: get_jni_env_def Let_def split: if_splits)

lemma client_callback_update:
  "client_callback e' (H\<lparr>pongCallback := p\<rparr>) = (if e' = Pong then p else client_callback e' H)"
  "client_callback e' (H\<lparr>sessionConfigCallback := p\<rparr>)
     = (if e' = SessionConfig then p else client_callback e' H)"
  "client_callback e' (H\<lparr>packetTypeRegistryCallback := p\<rparr>)
     = (if e' = PacketTypeRegistry then p else client_callback e' H)"
  "client_callback e' (H\<lparr>unhandledPacketCallback := p\<rparr>)
     = (if e' = UnhandledPacket then p else client_callback e' H)"
  "client_callback e' (H\<lparr>wrongDestinationCallback := p\<rparr>)
     = (if e' = WrongDestination then p else client_callback e' H)"
  by (cases e'; simp)+

lemma host_callback_update:
  "host_callback f' (G\<lparr>clientConnectCallback := p\<rparr>)
     = (if f' = ClientConnect then p else host_callback f' G)"
  "host_callback f' (G\<lparr>clientDenyCallback := p\<rparr>)
     = (if f' = ClientDeny then p else host_callback f' G)"
  "host_callback f' (G\<lparr>pingReceivedCallback := p\<rparr>)
     = (if f' = PingReceived then p else host_callback f' G)"
  "host_callback f' (G\<lparr>host_unhandledPacketCallback := p\<rparr>)
     = (if f' = HostUnhandledPacket then p else host_callback f' G)"
  by (cases f'; simp)+

lemma neonClientSetCallback_stores:
  assumes "clients s h = Some H" "h \<noteq> 0"
  shows "\<exists>H'. neonClientSetCallback e t h p s
               = Some (Ok (), s\<lparr>clients := (clients s)(h \<mapsto> H')\<rparr>)
           \<and> client_callback e H' = p
           \<and> (\<forall>e'. e' \<noteq> e \<longrightarrow> client_callback e' H' = client_callback e' H)
           \<and> javaObject H' = javaObject H"
proof (cases e)
  case Pong
  show ?thesis
    by (rule exI [of _ "H\<lparr>pongCallback := p\<rparr>"])
       (simp add: Pong assms neonClientSetPongCallback_def client_callback_update)
next
  case SessionConfig
  show ?thesis
    by (rule exI [of _ "H\<lparr>sessionConfigCallback := p\<rparr>"])
       (simp add: SessionConfig assms neonClientSetSessionConfigCallback_def
          client_callback_update)
next
  case PacketTypeRegistry
  show ?thesis
    by (rule exI [of _ "H\<lparr>packetTypeRegistryCallback := p\<rparr>"])
       (simp add: PacketTypeRegistry assms neonClientSetPacketTypeRegistryCallback_def
          client_callback_update)
next
  case UnhandledPacket
  show ?thesis
    by (rule exI [of _ "H\<lparr>unhandledPacketCallback := p\<rparr>"])
       (simp add: UnhandledPacket assms neonClientSetUnhandledPacketCallback_def
          client_callback_update)
next
  case WrongDestination
  show ?thesis
    by (rule exI [of _ "H\<lparr>wrongDestinationCallback := p\<rparr>"])
       (simp add: WrongDestination assms neonClientSetWrongDestinationCallback_def
          client_callback_update)
qed

lemma neonHostSetCallback_stores:
  assumes "hosts s h = Some G" "h \<noteq> 0"
  shows "\<exists>G'. neonHostSetCallback f t h p s
               = Some (Ok (), s\<lparr>hosts := (hosts s)(h \<mapsto> G')\<rparr>)
           \<and> host_callback f G' = p
           \<and> (\<forall>f'. f' \<noteq> f \<longrightarrow> host_callback f' G' = host_callback f' G)
           \<and> host_javaObject G' = host_javaObject G"
proof (cases f)
  case ClientConnect
  show ?thesis
    by (rule exI [of _ "G\<lparr>clientConnectCallback := p\<rparr>"])
       (simp add: ClientConnect assms neonHostSetClientConnectCallback_def
          host_callback_update)
next
  case ClientDeny
  show ?thesis
    by (rule exI [of _ "G\<lparr>clientDenyCallback := p\<rparr>"])
       (simp add: ClientDeny assms neonHostSetClientDenyCallback_def host_callback_update)
next
  case PingReceived
  show ?thesis
    by (rule exI [of _ "G\<lparr>pingReceivedCallback := p\<rparr>"])
       (simp add: PingReceived assms neonHostSetPingReceivedCallback_def
          host_callback_update)
next
  case HostUnhandledPacket
  show ?thesis
    by (rule exI [of _ "G\<lparr>host_unhandledPacketCallback := p\<rparr>"])
       (simp add: HostUnhandledPacket assms neonHostSetUnhandledPacketCallback_def
          host_callback_update)
qed

lemma neon_client_set_callback_forwards:
  assumes "h \<noteq> 0" "fst (get_jni_env J t s)"
  shows "neon_client_set_callback e J t h p s = neonClientSetCallback e t h p s"
  using assms get_jni_env_available [OF assms(2)]
  by (cases e)
     (simp_all add: neon_client_set_pong_callback_def
        neon_client_set_session_config_callback_def
        neon_client_set_packet_type_registry_callback_def
        neon_client_set_unhandled_packet_callback_def
        neon_client_set_wrong_destination_callback_def case_prod_beta)

lemma neon_host_set_callback_forwards:
  assumes "h \<noteq> 0" "fst (get_jni_env J t s)"
  shows "neon_host_set_callback f J t h p s = neonHostSetCallback f t h p s"
  using assms get_jni_env_available [OF assms(2)]
  by (cases f)
     (simp_all add: neon_host_set_client_connect_callback_def
        neon_host_set_client_deny_callback_def neon_host_set_ping_received_callback_def
        neon_host_set_unhandled_packet_callback_def case_prod_beta)

text \<open>
  Without an environment for the calling thread the C API setter stores nothing: it
  returns with the error that \<open>get_jni_env\<close> recorded.
\<close>

lemma neon_client_set_callback_no_env:
  assumes "h \<noteq> 0" "\<not> fst (get_jni_env J t s)"
  shows "neon_client_set_callback e J t h p s = Some (Failed (), snd (get_jni_env J t s))"
  using assms
  by (cases e)
     (simp_all add: neon_client_set_pong_callback_def
        neon_client_set_session_config_callback_def
        neon_client_set_packet_type_registry_callback_def
        neon_client_set_unhandled_packet_callback_def
        neon_client_set_wrong_destination_callback_def case_prod_beta)

text \<open>
  Claim C9. For a valid handle \<open>h\<close> (a live allocation, not null) and any pointer \<open>p\<close>,
  null included, the setter of an event returns normally in a state that differs from
  the old one only in the handle stored at \<open>h\<close>; in that handle the slot of the event holds
  \<open>p\<close>, every other slot and the managed-object reference are as before. Nothing is
  run on the managed side (the trace is that of the old state). The C API setter does
  exactly what the entry point does once it has the calling thread's environment.
\<close>

theorem callback_setters_store_verbatim:
  "(clients s h = Some H \<and> h \<noteq> 0 \<longrightarrow>
      (\<exists>H'. neonClientSetCallback e t h p s
               = Some (Ok (), s\<lparr>clients := (clients s)(h \<mapsto> H')\<rparr>)
           \<and> client_callback e H' = p
           \<and> (\<forall>e'. e' \<noteq> e \<longrightarrow> client_callback e' H' = client_callback e' H)
           \<and> javaObject H' = javaObject H))
   \<and> (hosts s h = Some G \<and> h \<noteq> 0 \<longrightarrow>
      (\<exists>G'. neonHostSetCallback f t h p s
               = Some (Ok (), s\<lparr>hosts := (hosts s)(h \<mapsto> G')\<rparr>)
           \<and> host_callback f G' = p
           \<and> (\<forall>f'. f' \<noteq> f \<longrightarrow> host_callback f' G' = host_callback f' G)
           \<and> host_javaObject G' = host_javaObject G))
   \<and> (h \<noteq> 0 \<and> fst (get_jni_env J t s) \<longrightarrow>
        neon_client_set_callback e J t h p s = neonClientSetCallback e t h p s
        \<and> neon_host_set_callback f J t h p s = neonHostSetCallback f t h p s)"
  using neonClientSetCallback_stores [of s h H e t p]
    neonHostSetCallback_stores [of s h G f t p]
    neon_client_set_callback_forwards [of h J t s e p]
    neon_host_set_callback_forwards [of h J t s f p]
  by blast

theorem callback_setters_store_verbatim_witness:
  "clients client_state 4096 \<noteq> None \<and> hosts host_state 4096 \<noteq> None
   \<and> (4096 :: jlong) \<noteq> 0 \<and> fst (get_jni_env jvm_ok 0 client_state)
   \<and> (\<exists>H'. neonClientSetCallback Pong 0 4096 5 client_state
               = Some (Ok (), client_state\<lparr>clients := (clients client_state)(4096 \<mapsto> H')\<rparr>)
            \<and> pongCallback H' = 5 \<and> sessionConfigCallback H' = 0 \<and> javaObject H' = 7)
   \<and> neon_client_set_callback Pong jvm_ok 0 4096 5 client_state
       = neonClientSetCallback Pong 0 4096 5 client_state"
proof -
  have c: "clients client_state 4096
             = Some \<lparr>javaObject = 7, pongCallback = 0, sessionConfigCallback = 0,
                     packetTypeRegistryCallback = 0, unhandledPacketCallback = 0,
                     wrongDestinationCallback = 0\<rparr>"
    by (simp add: client_state_def)
  have h: "hosts host_state 4096 \<noteq> None"
    by (simp add: host_state_def)
  have z: "(4096 :: jlong) \<noteq> 0"
    by simp
  have e: "fst (get_jni_env jvm_ok 0 client_state)"
    by (simp add: get_jni_env_def jvm_ok_def client_state_def loaded_state_def)
  from callback_setters_store_verbatim
         [of client_state 4096 _ Pong 0 5 _ ClientConnect jvm_ok] c z e
  obtain H' where
    "neonClientSetCallback Pong 0 4096 5 client_state
       = Some (Ok (), client_state\<lparr>clients := (clients client_state)(4096 \<mapsto> H')\<rparr>)"
    "client_callback Pong H' = 5"
    "\<forall>e'. e' \<noteq> Pong \<longrightarrow> client_callback e' H'
       = client_callback e' \<lparr>javaObject = 7, pongCallback = 0, sessionConfigCallback = 0,
                     packetTypeRegistryCallback = 0, unhandledPacketCallback = 0,
                     wrongDestinationCallback = 0\<rparr>"
    "javaObject H' = javaObject \<lparr>javaObject = 7, pongCallback = 0, sessionConfigCallback = 0,
                     packetTypeRegistryCallback = 0, unhandledPacketCallback = 0,
                     wrongDestinationCallback = 0\<rparr>"
    "neon_client_set_callback Pong jvm_ok 0 4096 5 client_state
       = neonClientSetCallback Pong 0 4096 5 client_state"
    by blast
  moreover from this(3) have "client_callback SessionConfig H' = 0"
    by fastforce
  ultimately show ?thesis
    using c h z e by auto
qed

subsection \<open>Parsing the relay address\<close>

lemma digit_not_space: "isdigit d \<Longrightarrow> \<not> isspace d"
  by (auto simp: isdigit_def isspace_def)

lemma digit_not_sign: "isdigit d \<Longrightarrow> d \<noteq> CHR ''-'' \<and> d \<noteq> CHR ''+''"
  by (auto simp: isdigit_def)

lemma sign_not_space: "\<not> isspace CHR ''-''" "\<not> isspace CHR ''+''"
  by (simp_all add: isspace_def)

lemma scan_host_prefix:
  assumes "host \<noteq> []" "length host \<le> 255" "CHR '':'' \<notin> set host"
  shows "takeWhile (\<lambda>c. c \<noteq> CHR '':'') (take 255 (host @ CHR '':'' # r)) = host"
proof -
  have "take 255 (host @ CHR '':'' # r) = host @ take (255 - length host) (CHR '':'' # r)"
    using assms(2) by simp
  moreover have "takeWhile (\<lambda>c. c \<noteq> CHR '':'') (take (255 - length host) (CHR '':'' # r)) = []"
    by (cases "255 - length host") simp_all
  moreover have "\<And>x. x \<in> set host \<Longrightarrow> x \<noteq> CHR '':''"
    using assms(3) by auto
  ultimately show ?thesis
    by simp
qed

lemma skip_space:
  assumes "list_all isspace ws" "\<not> isspace c"
  shows "dropWhile isspace (ws @ c # r) = c # r"
  using assms by (induction ws) simp_all

lemma form_accepted:
  assumes "scanned_form s host ws sg d rest"
  shows "fst (sscanf_relay s) = 2"
proof -
  from assms have s: "s = host @ CHR '':'' # ws @ sg @ d # rest"
    and h: "host \<noteq> []" "length host \<le> 255" "CHR '':'' \<notin> set host"
    and ws: "list_all isspace ws" and sg: "sg = [] \<or> sg = ''+'' \<or> sg = ''-''"
    and d: "isdigit d"
    by (simp_all add: scanned_form_def)
  have host: "takeWhile (\<lambda>c. c \<noteq> CHR '':'') (take 255 s) = host"
    unfolding s using h by (rule scan_host_prefix)
  have r1: "drop (length host) s = CHR '':'' # ws @ sg @ d # rest"
    by (simp add: s)
  have ne: "s \<noteq> []"
    using s by simp
  from sg show ?thesis
  proof (elim disjE)
    assume "sg = []"
    then have "dropWhile isspace (ws @ sg @ d # rest) = d # rest"
      using skip_space [OF ws digit_not_space [OF d]] by simp
    then show ?thesis
      using d digit_not_sign [OF d] h(1) ne
      by (simp add: sscanf_relay_def host r1 Let_def)
  next
    assume "sg = ''+''"
    then have "dropWhile isspace (ws @ sg @ d # rest) = CHR ''+'' # d # rest"
      using skip_space [OF ws sign_not_space(2)] by simp
    then show ?thesis
      using d h(1) ne by (simp add: sscanf_relay_def host r1 Let_def)
  next
    assume "sg = ''-''"
    then have "dropWhile isspace (ws @ sg @ d # rest) = CHR ''-'' # d # rest"
      using skip_space [OF ws sign_not_space(1)] by simp
    then show ?thesis
      using d h(1) ne by (simp add: sscanf_relay_def host r1 Let_def)
  qed
qed

lemma scanned_prefix_split:
  "takeWhile P (take n s) @ drop (length (takeWhile P (take n s))) s = s"
proof -
  have "takeWhile P (take n s) = take (length (takeWhile P (take n s))) (take n s)"
    by (rule takeWhile_eq_take)
  also have "\<dots> = take (length (takeWhile P (take n s))) s"
  proof -
    have "length (takeWhile P (take n s)) \<le> n"
      using length_takeWhile_le [of P "take n s"] by simp
    then show ?thesis by (simp add: min_def)
  qed
  finally have "takeWhile P (take n s) = take (length (takeWhile P (take n s))) s" .
  then show ?thesis
    by (metis append_take_drop_id)
qed

lemma first_of_run:
  "takeWhile P xs \<noteq> [] \<Longrightarrow> \<exists>d rest. xs = d # rest \<and> P d"
  by (cases xs) (auto split: if_splits)

lemma accepted_form:
  assumes "fst (sscanf_relay s) = 2"
  shows "\<exists>host ws sg d rest. scanned_form s host ws sg d rest"
proof -
  define host where "host = takeWhile (\<lambda>c. c \<noteq> CHR '':'') (take 255 s)"
  define r1 where "r1 = drop (length host) s"
  define r2 where "r2 = dropWhile isspace (tl r1)"
  define sg where
    "sg = (if r2 \<noteq> [] \<and> (hd r2 = CHR ''-'' \<or> hd r2 = CHR ''+'') then [hd r2] else [])"
  define r3 where
    "r3 = (if r2 \<noteq> [] \<and> (hd r2 = CHR ''-'' \<or> hd r2 = CHR ''+'') then tl r2 else r2)"
  from assms have h: "host \<noteq> []" and r1: "r1 \<noteq> []" "hd r1 = CHR '':''"
    and ds: "takeWhile isdigit r3 \<noteq> []"
    unfolding sscanf_relay_def host_def r1_def r2_def r3_def
    by (auto simp: Let_def split: if_splits)
  have s: "s = host @ r1"
    unfolding host_def r1_def by (simp add: scanned_prefix_split)
  have len: "length host \<le> 255"
    unfolding host_def using length_takeWhile_le [of _ "take 255 s"] by simp
  have nocolon: "CHR '':'' \<notin> set host"
    unfolding host_def by (auto dest: set_takeWhileD)
  have r1': "r1 = CHR '':'' # tl r1"
    using r1 by (cases r1) simp_all
  have tl: "tl r1 = takeWhile isspace (tl r1) @ r2"
    unfolding r2_def by simp
  have r2: "r2 = sg @ r3"
    unfolding sg_def r3_def by (cases r2) auto
  from first_of_run [OF ds] obtain d rest where r3: "r3 = d # rest" and d: "isdigit d"
    by blast
  have sgs: "sg = [] \<or> sg = ''+'' \<or> sg = ''-''"
    unfolding sg_def by auto
  have "s = host @ CHR '':'' # takeWhile isspace (tl r1) @ sg @ d # rest"
    using s r1' tl r2 r3 by metis
  moreover have "list_all isspace (takeWhile isspace (tl r1))"
    by (auto simp: list_all_iff dest: set_takeWhileD)
  ultimately have "scanned_form s host (takeWhile isspace (tl r1)) sg d rest"
    using h len nocolon sgs d by (simp add: scanned_form_def)
  then show ?thesis by blast
qed

lemma spec_form_scanned:
  assumes "spec_host_port s"
  shows "\<exists>host d rest. scanned_form s host [] [] d rest"
proof -
  define host where "host = takeWhile (\<lambda>c. c \<noteq> CHR '':'') s"
  define r where "r = drop (length host) s"
  from assms have h: "host \<noteq> []" "length host \<le> 255" and r: "r \<noteq> []"
    and p: "drop 1 r \<noteq> []" "list_all isdigit (drop 1 r)"
    unfolding spec_host_port_def host_def r_def Let_def by blast+
  have rd: "r = dropWhile (\<lambda>c. c \<noteq> CHR '':'') s"
    unfolding r_def host_def by (simp add: dropWhile_eq_drop)
  have s: "s = host @ r"
    unfolding rd host_def by simp
  have "hd r = CHR '':''"
    using r hd_dropWhile [of "\<lambda>c. c \<noteq> CHR '':''" s] unfolding rd by auto
  with r have r': "r = CHR '':'' # drop 1 r"
    by (cases r) simp_all
  from p obtain d rest where dr: "drop 1 r = d # rest" and d: "isdigit d"
    by (cases "drop 1 r") simp_all
  have nocolon: "CHR '':'' \<notin> set host"
    unfolding host_def by (auto dest: set_takeWhileD)
  have "s = host @ CHR '':'' # d # rest"
    using s r' dr by metis
  then have "scanned_form s host [] [] d rest"
    using h nocolon d by (simp add: scanned_form_def)
  then show ?thesis by blast
qed

lemma spec_form_accepted: "spec_host_port s \<Longrightarrow> fst (sscanf_relay s) = 2"
  using spec_form_scanned form_accepted by blast

text \<open>Strings the parse rejects, and the count it returns for them.\<close>

lemma rejected_addresses:
  "fst (sscanf_relay []) = - 1"
  "fst (sscanf_relay '':7777'') = 0"
  "fst (sscanf_relay ''bad-address'') = 1"
  "fst (sscanf_relay ''host:'') = 1"
  "fst (sscanf_relay ''host:port'') = 1"
  "fst (sscanf_relay ''host:-'') = 1"
  "fst (sscanf_relay (replicate 256 CHR ''a'' @ '':7777'')) = 1"
  by (simp_all add: sscanf_relay_def isspace_def isdigit_def)

lemma connect_rejects:
  assumes "fst (sscanf_relay a) \<noteq> 2" "clientPtr \<noteq> 0" "GetStringUTFChars_ok J a"
  shows "neonClientConnect J t clientPtr sid (Some a) s
           = Some (Failed False,
                   set_error t ''Invalid relay address format (expected host:port)'' s)"
  using assms by (simp add: neonClientConnect_def case_prod_beta)

lemma host_new_rejects:
  assumes "fst (sscanf_relay a) \<noteq> 2" "GetStringUTFChars_ok J a"
  shows "neonHostNew J t sid (Some a) s
           = Some (Failed 0,
                   set_error t ''Invalid relay address format (expected host:port)'' s)"
  using assms by (simp add: neonHostNew_def case_prod_beta)

text \<open>
  Claim C2, as stated: the parse accepts a string if and only if it has the exact form
  \<open>host:port\<close> with a port between 0 and 65535 and nothing after it. The parse accepts
  \<open>h:80x\<close> (bytes after the port) and \<open>h:70000\<close> (port out of range), and host creation
  goes on to construct the managed host for the first of them.
\<close>

theorem relay_address_counterexample:
  "fst (sscanf_relay ''h:80x'') = 2 \<and> \<not> spec_host_port ''h:80x''
   \<and> fst (sscanf_relay ''h:70000'') = 2 \<and> \<not> spec_host_port ''h:70000''
   \<and> neonHostNew jvm_ok 0 42 (Some ''h:80x'') loaded_state
       = Some (Ok 4096,
               loaded_state
                 \<lparr>hosts := [4096 \<mapsto> \<lparr>host_javaObject = 7, clientConnectCallback = 0,
                                      clientDenyCallback = 0, pingReceivedCallback = 0,
                                      host_unhandledPacketCallback = 0\<rparr>],
                  global_refs := [7],
                  trace := [Constructed NeonHost [ArgInt 42, ArgString ''h'', ArgInt 80]]\<rparr>)"
  by (simp add: sscanf_relay_def spec_host_port_def isspace_def isdigit_def decimal_def
      digit_value_def neonHostNew_def jvm_ok_def loaded_state_def initial_state_def
      NewObject_def NewGlobalRef_def)

text \<open>
  Claim C2, amended. The parse accepts a string if and only if the string begins with a
  non-empty host of at most 255 bytes that contains no colon, followed by a colon,
  optional white space, an optional sign and at least one decimal digit; what follows the
  digits and the size of the number are not checked. Every string of the exact form
  \<open>host:port\<close> that the claim describes is accepted. Every string the parse does not
  accept (no colon, empty host, over-long host, no digit where the port starts) makes
  client connect return false and host creation return the null handle, with "Invalid
  relay address format (expected host:port)" recorded on the calling thread.
\<close>

theorem relay_address_parse:
  "(fst (sscanf_relay a) = 2 \<longleftrightarrow> (\<exists>host ws sg d rest. scanned_form a host ws sg d rest))
   \<and> (spec_host_port a \<longrightarrow> fst (sscanf_relay a) = 2)
   \<and> (fst (sscanf_relay a) \<noteq> 2 \<and> clientPtr \<noteq> 0 \<and> GetStringUTFChars_ok J a \<longrightarrow>
        neonClientConnect J t clientPtr sid (Some a) s
          = Some (Failed False,
                  set_error t ''Invalid relay address format (expected host:port)'' s))
   \<and> (fst (sscanf_relay a) \<noteq> 2 \<and> GetStringUTFChars_ok J a \<longrightarrow>
        neonHostNew J t sid (Some a) s
          = Some (Failed 0,
                  set_error t ''Invalid relay address format (expected host:port)'' s))"
  using accepted_form [of a] form_accepted [of a] spec_form_accepted [of a]
    connect_rejects [of a clientPtr J t sid s] host_new_rejects [of a J t sid s]
  by blast

theorem relay_address_parse_witness:
  "spec_host_port ''127.0.0.1:7777'' \<and> fst (sscanf_relay ''127.0.0.1:7777'') = 2
   \<and> scanned_form ''h: -12x'' ''h'' '' '' ''-'' CHR ''1'' ''2x''
   \<and> fst (sscanf_relay ''h: -12x'') = 2
   \<and> fst (sscanf_relay ''bad-address'') \<noteq> 2 \<and> (4096 :: jlong) \<noteq> 0
   \<and> GetStringUTFChars_ok jvm_ok ''bad-address''
   \<and> neonClientConnect jvm_ok 0 4096 1 (Some ''bad-address'') client_state
       = Some (Failed False,
               set_error 0 ''Invalid relay address format (expected host:port)'' client_state)
   \<and> neonHostNew jvm_ok 0 1 (Some ''bad-address'') loaded_state
       = Some (Failed 0,
               set_error 0 ''Invalid relay address format (expected host:port)'' loaded_state)"
proof -
  have a: "spec_host_port ''127.0.0.1:7777''"
    by (simp add: spec_host_port_def isdigit_def decimal_def digit_value_def)
  have b: "scanned_form ''h: -12x'' ''h'' '' '' ''-'' CHR ''1'' ''2x''"
    by (simp add: scanned_form_def isspace_def isdigit_def)
  have c: "fst (sscanf_relay ''bad-address'') \<noteq> 2"
    by (simp add: sscanf_relay_def)
  have d: "GetStringUTFChars_ok jvm_ok ''bad-address''"
    by (simp add: jvm_ok_def)
  have z: "(4096 :: jlong) \<noteq> 0"
    by simp
  have e1: "fst (sscanf_relay ''127.0.0.1:7777'') = 2"
    using relay_address_parse [of "''127.0.0.1:7777''"] a by blast
  have e2: "fst (sscanf_relay ''h: -12x'') = 2"
    using relay_address_parse [of "''h: -12x''"] b by blast
  have e3: "neonClientConnect jvm_ok 0 4096 1 (Some ''bad-address'') client_state
       = Some (Failed False,
               set_error 0 ''Invalid relay address format (expected host:port)'' client_state)"
    using relay_address_parse [of "''bad-address''" 4096 jvm_ok 0 1 client_state] c d z
    by blast
  have e4: "neonHostNew jvm_ok 0 1 (Some ''bad-address'') loaded_state
       = Some (Failed 0,
               set_error 0 ''Invalid relay address format (expected host:port)'' loaded_state)"
    using relay_address_parse [of "''bad-address''" 4096 jvm_ok 0 1 loaded_state] c d
    by blast
  show ?thesis
    by (intro conjI a b c d z e1 e2 e3 e4)
qed

subsection \<open>Host creation on a rejected address\<close>


lemma get_jni_env_unavailable:
  assumes "\<not> fst (get_jni_env J t s)"
  shows "\<exists>m. m \<noteq> [] \<and> snd (get_jni_env J t s)
               = s\<lparr>g_error_buffer := (g_error_buffer s)(t := m)\<rparr>"
proof (cases "g_jvm s")
  case False
  show ?thesis
    by (rule exI [of _ "''JVM not initialized''"])
       (simp add: get_jni_env_def False set_error_def)
next
  case jvm: True
  show ?thesis
  proof (cases "GetEnv_status J t = JNI_EDETACHED")
    case True
    with assms jvm show ?thesis
      by (intro exI [of _ "''Failed to attach thread to JVM''"])
         (simp add: get_jni_env_def set_error_def split: if_splits)
  next
    case False
    with assms jvm show ?thesis
      by (intro exI [of _ "''Failed to get JNI environment''"])
         (simp add: get_jni_env_def set_error_def split: if_splits)
  qed
qed






subsection \<open>Managed exceptions at the boundary\<close>

text \<open>
  The forwarders that test for a pending exception after the managed call: when the
  method throws they clear the exception, record "Exception during ..." and return
  the sentinel.
\<close>

lemma exception_cleared_after:
  "\<not> pending (set_error t msg (ExceptionClear t s)) t"
  by (simp add: set_error_def ExceptionClear_def)

lemma ExceptionCheck_left_pending: "ExceptionCheck t (left_pending t ev s)"
  by (simp add: ExceptionCheck_def left_pending_def)

lemma CallVoidMethod_throws:
  "void_method J obj m args = Throws u \<Longrightarrow>
     CallVoidMethod J t obj m args s = left_pending t (Invoked obj m args) s"
  by (simp add: CallVoidMethod_def raise_if_thrown_def left_pending_def)

lemma CallIntMethod_throws:
  "int_method J obj m = Throws v \<Longrightarrow>
     CallIntMethod J t obj m s = (v, left_pending t (Invoked obj m []) s)"
  by (simp add: CallIntMethod_def raise_if_thrown_def left_pending_def)

lemma CallBooleanMethod_throws:
  "boolean_method J obj m = Throws v \<Longrightarrow>
     CallBooleanMethod J t obj m s = (v, left_pending t (Invoked obj m []) s)"
  by (simp add: CallBooleanMethod_def raise_if_thrown_def left_pending_def)

lemma process_packets_catches:
  assumes "clients s h = Some H" "h \<noteq> 0" "g_neonClientClass s = Some cls"
    and "GetMethodID_ok J cls ''processPackets'' ''()I''"
    and "int_method J (javaObject H) ''processPackets'' = Throws v"
  shows "neonClientProcessPackets J t h s
           = Some (Failed (- 1),
                   set_error t ''Exception during processPackets''
                     (ExceptionClear t
                        (left_pending t (Invoked (javaObject H) ''processPackets'' []) s)))"
  using assms
  by (simp add: neonClientProcessPackets_def CallIntMethod_throws ExceptionCheck_left_pending)

lemma host_process_packets_catches:
  assumes "hosts s h = Some G" "h \<noteq> 0" "g_neonHostClass s = Some cls"
    and "GetMethodID_ok J cls ''processPackets'' ''()I''"
    and "int_method J (host_javaObject G) ''processPackets'' = Throws v"
  shows "neonHostProcessPackets J t h s
           = Some (Failed (- 1),
                   set_error t ''Exception during processPackets''
                     (ExceptionClear t
                        (left_pending t (Invoked (host_javaObject G) ''processPackets'' []) s)))"
  using assms
  by (simp add: neonHostProcessPackets_def CallIntMethod_throws ExceptionCheck_left_pending)

lemma send_ping_catches:
  assumes "clients s h = Some H" "h \<noteq> 0" "g_neonClientClass s = Some cls"
    and "GetMethodID_ok J cls ''sendPing'' ''()V''"
    and "void_method J (javaObject H) ''sendPing'' [] = Throws u"
  shows "neonClientSendPing J t h s
           = Some (Failed False,
                   set_error t ''Exception during sendPing''
                     (ExceptionClear t
                        (left_pending t (Invoked (javaObject H) ''sendPing'' []) s)))"
  using assms
  by (simp add: neonClientSendPing_def CallVoidMethod_throws ExceptionCheck_left_pending)

lemma host_start_catches:
  assumes "hosts s h = Some G" "h \<noteq> 0" "g_neonHostClass s = Some cls"
    and "GetMethodID_ok J cls ''start'' ''()V''"
    and "void_method J (host_javaObject G) ''start'' [] = Throws u"
  shows "neonHostStart J t h s
           = Some (Failed False,
                   set_error t ''Exception during start''
                     (ExceptionClear t
                        (left_pending t (Invoked (host_javaObject G) ''start'' []) s)))"
  using assms
  by (simp add: neonHostStart_def CallVoidMethod_throws ExceptionCheck_left_pending)

lemma connect_catches:
  assumes "clients s h = Some H" "h \<noteq> 0" "g_neonClientClass s = Some cls"
    and "GetStringUTFChars_ok J a" "sscanf_relay a = (2, host, port)"
    and "GetMethodID_ok J cls ''connect'' ''(ILjava/lang/String;I)V''"
    and "NewStringUTF_ok J host"
    and "void_method J (javaObject H) ''connect''
           [ArgInt sid, ArgString host, ArgInt (word_of_int port)] = Throws u"
  shows "neonClientConnect J t h sid (Some a) s
           = Some (Failed False,
                   set_error t ''Exception during connect''
                     (ExceptionClear t
                        (left_pending t
                           (Invoked (javaObject H) ''connect''
                              [ArgInt sid, ArgString host, ArgInt (word_of_int port)]) s)))"
  using assms
  by (simp add: neonClientConnect_def CallVoidMethod_throws ExceptionCheck_left_pending)

text \<open>The forwarders without that test hand back whatever the call returned.\<close>

lemma get_id_does_not_catch:
  assumes "clients s h = Some H" "h \<noteq> 0" "g_neonClientClass s = Some cls"
    and "GetMethodID_ok J cls ''getClientId'' ''()I''"
    and "int_method J (javaObject H) ''getClientId'' = Throws v"
  shows "neonClientGetId J t h s
           = Some (Ok v, left_pending t (Invoked (javaObject H) ''getClientId'' []) s)"
  using assms
  by (simp add: neonClientGetId_def CallIntMethod_throws)

text \<open>
  Claim C1 says that every forwarding operation, get-id, get-session-id, is-connected,
  set-auto-ping and get-client-count among them, clears a failure signalled by the managed
  call, records "Exception during ..." and returns the sentinel. Run on a valid handle in
  a runtime whose managed methods throw, these five return through their final
  \<^verbatim>\<open>return\<close> with the value the call handed back: the exception is still pending on the
  calling thread and the error channel is empty. The C API functions on top of them
  behave the same.
\<close>

theorem unchecked_forwarders_leave_exception_pending:
  "neonClientGetId jvm_throwing 0 4096 client_state
     = Some (Ok 0, left_pending 0 (Invoked 7 ''getClientId'' []) client_state)
   \<and> neonClientGetSessionId jvm_throwing 0 4096 client_state
     = Some (Ok 0, left_pending 0 (Invoked 7 ''getSessionId'' []) client_state)
   \<and> neonClientIsConnected jvm_throwing 0 4096 client_state
     = Some (Ok False, left_pending 0 (Invoked 7 ''isConnected'' []) client_state)
   \<and> neonClientSetAutoPing jvm_throwing 0 4096 True client_state
     = Some (Ok (), left_pending 0 (Invoked 7 ''setAutoPing'' [ArgBoolean True]) client_state)
   \<and> neonHostGetSessionId jvm_throwing 0 4096 host_state
     = Some (Ok 0, left_pending 0 (Invoked 7 ''getSessionId'' []) host_state)
   \<and> neonHostGetClientCount jvm_throwing 0 4096 host_state
     = Some (Ok 0, left_pending 0 (Invoked 7 ''getClientCount'' []) host_state)
   \<and> neon_client_get_id jvm_throwing 0 4096 client_state
     = Some (Ok 0, left_pending 0 (Invoked 7 ''getClientId'' []) client_state)
   \<and> neon_host_get_client_count jvm_throwing 0 4096 host_state
     = Some (Ok 0, left_pending 0 (Invoked 7 ''getClientCount'' []) host_state)
   \<and> pending (left_pending 0 (Invoked 7 ''getClientId'' []) client_state) 0
   \<and> neon_get_last_error 0 (left_pending 0 (Invoked 7 ''getClientId'' []) client_state) = None
   \<and> pending (left_pending 0 (Invoked 7 ''getClientCount'' []) host_state) 0
   \<and> neon_get_last_error 0 (left_pending 0 (Invoked 7 ''getClientCount'' []) host_state) = None"
  by (simp add: neonClientGetId_def neonClientGetSessionId_def neonClientIsConnected_def
      neonClientSetAutoPing_def neonHostGetSessionId_def neonHostGetClientCount_def
      neon_client_get_id_def neon_host_get_client_count_def get_jni_env_def convert_def
      jvm_throwing_def jvm_ok_def client_state_def host_state_def loaded_state_def
      initial_state_def CallIntMethod_def CallBooleanMethod_def CallVoidMethod_def
      raise_if_thrown_def left_pending_def neon_get_last_error_def)

subsection \<open>Every call and the error channel\<close>

text \<open>
  No JNI routine used by the file touches an error buffer; \<open>set_error\<close> overwrites the
  buffer of its thread alone.
\<close>

lemma buf_set_error: "g_error_buffer (set_error t m s) = (g_error_buffer s)(t := take 511 m)"
  by (simp add: set_error_def)

lemma buf_ExceptionClear: "g_error_buffer (ExceptionClear t s) = g_error_buffer s"
  by (simp add: ExceptionClear_def)

lemma buf_raise_if_thrown: "g_error_buffer (raise_if_thrown t c s) = g_error_buffer s"
  by (simp add: raise_if_thrown_def split: jcall.splits)

lemma buf_CallVoidMethod: "g_error_buffer (CallVoidMethod J t obj m args s) = g_error_buffer s"
  by (simp add: CallVoidMethod_def buf_raise_if_thrown)

lemma buf_CallIntMethod: "g_error_buffer (snd (CallIntMethod J t obj m s)) = g_error_buffer s"
  by (simp add: CallIntMethod_def buf_raise_if_thrown)

lemma buf_CallBooleanMethod:
  "g_error_buffer (snd (CallBooleanMethod J t obj m s)) = g_error_buffer s"
  by (simp add: CallBooleanMethod_def buf_raise_if_thrown)

lemma buf_NewObject: "g_error_buffer (snd (NewObject J t cls args s)) = g_error_buffer s"
  by (simp add: NewObject_def Let_def)

lemma buf_NewGlobalRef: "g_error_buffer (NewGlobalRef obj s) = g_error_buffer s"
  by (simp add: NewGlobalRef_def)

lemma buf_DeleteGlobalRef: "g_error_buffer (DeleteGlobalRef obj s) = g_error_buffer s"
  by (simp add: DeleteGlobalRef_def)

lemmas buf_simps = buf_set_error buf_ExceptionClear buf_CallVoidMethod buf_CallIntMethod
  buf_CallBooleanMethod buf_NewObject buf_NewGlobalRef buf_DeleteGlobalRef

lemma err_effect_Failed:
  "take 511 m \<noteq> [] \<Longrightarrow> g_error_buffer s1 = g_error_buffer s \<Longrightarrow>
     err_effect t (Failed v) s (set_error t m s1)"
  unfolding err_effect_def
  by (simp add: buf_set_error) (rule exI [of _ "take 511 m"], simp)

lemma err_effect_Ok: "g_error_buffer s1 = g_error_buffer s \<Longrightarrow> err_effect t (Ok v) s s1"
  by (simp add: err_effect_def)

lemma err_effect_Quiet: "g_error_buffer s1 = g_error_buffer s \<Longrightarrow> err_effect t (Quiet v) s s1"
  by (simp add: err_effect_def)

lemma err_effect_map_ret: "err_effect t (map_ret f r) s s' = err_effect t r s s'"
  by (cases r) (simp_all add: err_effect_def)

lemma err_convert:
  assumes "convert f x = Some (r, s')"
    and "\<And>r0. x = Some (r0, s') \<Longrightarrow> err_effect t r0 s s'"
  shows "err_effect t r s s'"
  using assms
  by (auto simp: convert_def err_effect_map_ret split: option.splits)

lemma err_get_jni_env:
  "\<not> fst (get_jni_env J t s) \<Longrightarrow> err_effect t (Failed v) s (snd (get_jni_env J t s))"
  using get_jni_env_unavailable [of J t s]
  by (auto simp: err_effect_def)

text \<open>The JNI entry points.\<close>

lemma err_neonClientNew:
  "neonClientNew J t a s = Some (r, s') \<Longrightarrow> err_effect t r s s'"
  unfolding neonClientNew_def
  by (auto simp: Let_def case_prod_beta buf_simps split: option.splits if_splits
      intro!: err_effect_Failed err_effect_Ok err_effect_Quiet)

lemma err_neonClientConnect:
  "neonClientConnect J t p sid a s = Some (r, s') \<Longrightarrow> err_effect t r s s'"
  unfolding neonClientConnect_def
  by (auto simp: Let_def case_prod_beta buf_simps split: option.splits if_splits
      intro!: err_effect_Failed err_effect_Ok err_effect_Quiet)

lemma err_neonClientProcessPackets:
  "neonClientProcessPackets J t p s = Some (r, s') \<Longrightarrow> err_effect t r s s'"
  unfolding neonClientProcessPackets_def
  by (auto simp: Let_def case_prod_beta buf_simps split: option.splits if_splits
      intro!: err_effect_Failed err_effect_Ok err_effect_Quiet)

lemma err_neonClientGetId:
  "neonClientGetId J t p s = Some (r, s') \<Longrightarrow> err_effect t r s s'"
  unfolding neonClientGetId_def
  by (auto simp: Let_def case_prod_beta buf_simps split: option.splits if_splits
      intro!: err_effect_Failed err_effect_Ok err_effect_Quiet)

lemma err_neonClientGetSessionId:
  "neonClientGetSessionId J t p s = Some (r, s') \<Longrightarrow> err_effect t r s s'"
  unfolding neonClientGetSessionId_def
  by (auto simp: Let_def case_prod_beta buf_simps split: option.splits if_splits
      intro!: err_effect_Failed err_effect_Ok err_effect_Quiet)

lemma err_neonClientIsConnected:
  "neonClientIsConnected J t p s = Some (r, s') \<Longrightarrow> err_effect t r s s'"
  unfolding neonClientIsConnected_def
  by (auto simp: Let_def case_prod_beta buf_simps split: option.splits if_splits
      intro!: err_effect_Failed err_effect_Ok err_effect_Quiet)

lemma err_neonClientSendPing:
  "neonClientSendPing J t p s = Some (r, s') \<Longrightarrow> err_effect t r s s'"
  unfolding neonClientSendPing_def
  by (auto simp: Let_def case_prod_beta buf_simps split: option.splits if_splits
      intro!: err_effect_Failed err_effect_Ok err_effect_Quiet)

lemma err_neonClientSetAutoPing:
  "neonClientSetAutoPing J t p b s = Some (r, s') \<Longrightarrow> err_effect t r s s'"
  unfolding neonClientSetAutoPing_def
  by (auto simp: Let_def case_prod_beta buf_simps split: option.splits if_splits
      intro!: err_effect_Failed err_effect_Ok err_effect_Quiet)

lemma err_neonClientSetPongCallback:
  "neonClientSetPongCallback t p c s = Some (r, s') \<Longrightarrow> err_effect t r s s'"
  unfolding neonClientSetPongCallback_def
  by (auto simp: Let_def case_prod_beta buf_simps split: option.splits if_splits
      intro!: err_effect_Failed err_effect_Ok err_effect_Quiet)

lemma err_neonClientSetSessionConfigCallback:
  "neonClientSetSessionConfigCallback t p c s = Some (r, s') \<Longrightarrow> err_effect t r s s'"
  unfolding neonClientSetSessionConfigCallback_def
  by (auto simp: Let_def case_prod_beta buf_simps split: option.splits if_splits
      intro!: err_effect_Failed err_effect_Ok err_effect_Quiet)

lemma err_neonClientSetPacketTypeRegistryCallback:
  "neonClientSetPacketTypeRegistryCallback t p c s = Some (r, s') \<Longrightarrow> err_effect t r s s'"
  unfolding neonClientSetPacketTypeRegistryCallback_def
  by (auto simp: Let_def case_prod_beta buf_simps split: option.splits if_splits
      intro!: err_effect_Failed err_effect_Ok err_effect_Quiet)

lemma err_neonClientSetUnhandledPacketCallback:
  "neonClientSetUnhandledPacketCallback t p c s = Some (r, s') \<Longrightarrow> err_effect t r s s'"
  unfolding neonClientSetUnhandledPacketCallback_def
  by (auto simp: Let_def case_prod_beta buf_simps split: option.splits if_splits
      intro!: err_effect_Failed err_effect_Ok err_effect_Quiet)

lemma err_neonClientSetWrongDestinationCallback:
  "neonClientSetWrongDestinationCallback t p c s = Some (r, s') \<Longrightarrow> err_effect t r s s'"
  unfolding neonClientSetWrongDestinationCallback_def
  by (auto simp: Let_def case_prod_beta buf_simps split: option.splits if_splits
      intro!: err_effect_Failed err_effect_Ok err_effect_Quiet)

lemma err_neonClientFree:
  "neonClientFree J t p s = Some (r, s') \<Longrightarrow> err_effect t r s s'"
  unfolding neonClientFree_def
  by (auto simp: Let_def case_prod_beta buf_simps split: option.splits if_splits
      intro!: err_effect_Failed err_effect_Ok err_effect_Quiet)

lemma err_neonHostNew:
  "neonHostNew J t sid a s = Some (r, s') \<Longrightarrow> err_effect t r s s'"
  unfolding neonHostNew_def
  by (auto simp: Let_def case_prod_beta buf_simps split: option.splits if_splits
      intro!: err_effect_Failed err_effect_Ok err_effect_Quiet)

lemma err_neonHostStart:
  "neonHostStart J t p s = Some (r, s') \<Longrightarrow> err_effect t r s s'"
  unfolding neonHostStart_def
  by (auto simp: Let_def case_prod_beta buf_simps split: option.splits if_splits
      intro!: err_effect_Failed err_effect_Ok err_effect_Quiet)

lemma err_neonHostProcessPackets:
  "neonHostProcessPackets J t p s = Some (r, s') \<Longrightarrow> err_effect t r s s'"
  unfolding neonHostProcessPackets_def
  by (auto simp: Let_def case_prod_beta buf_simps split: option.splits if_splits
      intro!: err_effect_Failed err_effect_Ok err_effect_Quiet)

lemma err_neonHostGetSessionId:
  "neonHostGetSessionId J t p s = Some (r, s') \<Longrightarrow> err_effect t r s s'"
  unfolding neonHostGetSessionId_def
  by (auto simp: Let_def case_prod_beta buf_simps split: option.splits if_splits
      intro!: err_effect_Failed err_effect_Ok err_effect_Quiet)

lemma err_neonHostGetClientCount:
  "neonHostGetClientCount J t p s = Some (r, s') \<Longrightarrow> err_effect t r s s'"
  unfolding neonHostGetClientCount_def
  by (auto simp: Let_def case_prod_beta buf_simps split: option.splits if_splits
      intro!: err_effect_Failed err_effect_Ok err_effect_Quiet)

lemma err_neonHostSetClientConnectCallback:
  "neonHostSetClientConnectCallback t p c s = Some (r, s') \<Longrightarrow> err_effect t r s s'"
  unfolding neonHostSetClientConnectCallback_def
  by (auto simp: Let_def case_prod_beta buf_simps split: option.splits if_splits
      intro!: err_effect_Failed err_effect_Ok err_effect_Quiet)

lemma err_neonHostSetClientDenyCallback:
  "neonHostSetClientDenyCallback t p c s = Some (r, s') \<Longrightarrow> err_effect t r s s'"
  unfolding neonHostSetClientDenyCallback_def
  by (auto simp: Let_def case_prod_beta buf_simps split: option.splits if_splits
      intro!: err_effect_Failed err_effect_Ok err_effect_Quiet)

lemma err_neonHostSetPingReceivedCallback:
  "neonHostSetPingReceivedCallback t p c s = Some (r, s') \<Longrightarrow> err_effect t r s s'"
  unfolding neonHostSetPingReceivedCallback_def
  by (auto simp: Let_def case_prod_beta buf_simps split: option.splits if_splits
      intro!: err_effect_Failed err_effect_Ok err_effect_Quiet)

lemma err_neonHostSetUnhandledPacketCallback:
  "neonHostSetUnhandledPacketCallback t p c s = Some (r, s') \<Longrightarrow> err_effect t r s s'"
  unfolding neonHostSetUnhandledPacketCallback_def
  by (auto simp: Let_def case_prod_beta buf_simps split: option.splits if_splits
      intro!: err_effect_Failed err_effect_Ok err_effect_Quiet)

lemma err_neonHostFree:
  "neonHostFree J t p s = Some (r, s') \<Longrightarrow> err_effect t r s s'"
  unfolding neonHostFree_def
  by (auto simp: Let_def case_prod_beta buf_simps split: option.splits if_splits
      intro!: err_effect_Failed err_effect_Ok err_effect_Quiet)

text \<open>The C API: its own guards, \<open>get_jni_env\<close>, then the entry point.\<close>

lemma err_neon_client_new:
  "neon_client_new J t a s = Some (r, s') \<Longrightarrow> err_effect t r s s'"
  unfolding neon_client_new_def
  by (auto simp: Let_def case_prod_beta buf_simps get_jni_env_available
      split: if_splits elim!: err_convert
      intro!: err_effect_Failed err_effect_Quiet err_get_jni_env intro: err_neonClientNew)

lemma err_neon_client_connect:
  "neon_client_connect J t p sid a s = Some (r, s') \<Longrightarrow> err_effect t r s s'"
  unfolding neon_client_connect_def
  by (auto simp: Let_def case_prod_beta buf_simps get_jni_env_available
      split: if_splits elim!: err_convert
      intro!: err_effect_Failed err_effect_Quiet err_get_jni_env intro: err_neonClientConnect)

lemma err_neon_client_process_packets:
  "neon_client_process_packets J t p s = Some (r, s') \<Longrightarrow> err_effect t r s s'"
  unfolding neon_client_process_packets_def
  by (auto simp: Let_def case_prod_beta buf_simps get_jni_env_available
      split: if_splits elim!: err_convert
      intro!: err_effect_Failed err_effect_Quiet err_get_jni_env intro: err_neonClientProcessPackets)

lemma err_neon_client_get_id:
  "neon_client_get_id J t p s = Some (r, s') \<Longrightarrow> err_effect t r s s'"
  unfolding neon_client_get_id_def
  by (auto simp: Let_def case_prod_beta buf_simps get_jni_env_available
      split: if_splits elim!: err_convert
      intro!: err_effect_Failed err_effect_Quiet err_get_jni_env intro: err_neonClientGetId)

lemma err_neon_client_get_session_id:
  "neon_client_get_session_id J t p s = Some (r, s') \<Longrightarrow> err_effect t r s s'"
  unfolding neon_client_get_session_id_def
  by (auto simp: Let_def case_prod_beta buf_simps get_jni_env_available
      split: if_splits elim!: err_convert
      intro!: err_effect_Failed err_effect_Quiet err_get_jni_env intro: err_neonClientGetSessionId)

lemma err_neon_client_is_connected:
  "neon_client_is_connected J t p s = Some (r, s') \<Longrightarrow> err_effect t r s s'"
  unfolding neon_client_is_connected_def
  by (auto simp: Let_def case_prod_beta buf_simps get_jni_env_available
      split: if_splits elim!: err_convert
      intro!: err_effect_Failed err_effect_Quiet err_get_jni_env intro: err_neonClientIsConnected)

lemma err_neon_client_send_ping:
  "neon_client_send_ping J t p s = Some (r, s') \<Longrightarrow> err_effect t r s s'"
  unfolding neon_client_send_ping_def
  by (auto simp: Let_def case_prod_beta buf_simps get_jni_env_available
      split: if_splits elim!: err_convert
      intro!: err_effect_Failed err_effect_Quiet err_get_jni_env intro: err_neonClientSendPing)

lemma err_neon_client_set_auto_ping:
  "neon_client_set_auto_ping J t p b s = Some (r, s') \<Longrightarrow> err_effect t r s s'"
  unfolding neon_client_set_auto_ping_def
  by (auto simp: Let_def case_prod_beta buf_simps get_jni_env_available
      split: if_splits elim!: err_convert
      intro!: err_effect_Failed err_effect_Quiet err_get_jni_env intro: err_neonClientSetAutoPing)

lemma err_neon_client_set_pong_callback:
  "neon_client_set_pong_callback J t p c s = Some (r, s') \<Longrightarrow> err_effect t r s s'"
  unfolding neon_client_set_pong_callback_def
  by (auto simp: Let_def case_prod_beta buf_simps get_jni_env_available
      split: if_splits elim!: err_convert
      intro!: err_effect_Failed err_effect_Quiet err_get_jni_env intro: err_neonClientSetPongCallback)

lemma err_neon_client_set_session_config_callback:
  "neon_client_set_session_config_callback J t p c s = Some (r, s') \<Longrightarrow> err_effect t r s s'"
  unfolding neon_client_set_session_config_callback_def
  by (auto simp: Let_def case_prod_beta buf_simps get_jni_env_available
      split: if_splits elim!: err_convert
      intro!: err_effect_Failed err_effect_Quiet err_get_jni_env intro: err_neonClientSetSessionConfigCallback)

lemma err_neon_client_set_packet_type_registry_callback:
  "neon_client_set_packet_type_registry_callback J t p c s = Some (r, s') \<Longrightarrow> err_effect t r s s'"
  unfolding neon_client_set_packet_type_registry_callback_def
  by (auto simp: Let_def case_prod_beta buf_simps get_jni_env_available
      split: if_splits elim!: err_convert
      intro!: err_effect_Failed err_effect_Quiet err_get_jni_env intro: err_neonClientSetPacketTypeRegistryCallback)

lemma err_neon_client_set_unhandled_packet_callback:
  "neon_client_set_unhandled_packet_callback J t p c s = Some (r, s') \<Longrightarrow> err_effect t r s s'"
  unfolding neon_client_set_unhandled_packet_callback_def
  by (auto simp: Let_def case_prod_beta buf_simps get_jni_env_available
      split: if_splits elim!: err_convert
      intro!: err_effect_Failed err_effect_Quiet err_get_jni_env intro: err_neonClientSetUnhandledPacketCallback)

lemma err_neon_client_set_wrong_destination_callback:
  "neon_client_set_wrong_destination_callback J t p c s = Some (r, s') \<Longrightarrow> err_effect t r s s'"
  unfolding neon_client_set_wrong_destination_callback_def
  by (auto simp: Let_def case_prod_beta buf_simps get_jni_env_available
      split: if_splits elim!: err_convert
      intro!: err_effect_Failed err_effect_Quiet err_get_jni_env intro: err_neonClientSetWrongDestinationCallback)

lemma err_neon_client_free:
  "neon_client_free J t p s = Some (r, s') \<Longrightarrow> err_effect t r s s'"
  unfolding neon_client_free_def
  by (auto simp: Let_def case_prod_beta buf_simps get_jni_env_available
      split: if_splits elim!: err_convert
      intro!: err_effect_Failed err_effect_Quiet err_get_jni_env intro: err_neonClientFree)

lemma err_neon_host_new:
  "neon_host_new J t sid a s = Some (r, s') \<Longrightarrow> err_effect t r s s'"
  unfolding neon_host_new_def
  by (auto simp: Let_def case_prod_beta buf_simps get_jni_env_available
      split: if_splits elim!: err_convert
      intro!: err_effect_Failed err_effect_Quiet err_get_jni_env intro: err_neonHostNew)

lemma err_neon_host_start:
  "neon_host_start J t p s = Some (r, s') \<Longrightarrow> err_effect t r s s'"
  unfolding neon_host_start_def
  by (auto simp: Let_def case_prod_beta buf_simps get_jni_env_available
      split: if_splits elim!: err_convert
      intro!: err_effect_Failed err_effect_Quiet err_get_jni_env intro: err_neonHostStart)

lemma err_neon_host_process_packets:
  "neon_host_process_packets J t p s = Some (r, s') \<Longrightarrow> err_effect t r s s'"
  unfolding neon_host_process_packets_def
  by (auto simp: Let_def case_prod_beta buf_simps get_jni_env_available
      split: if_splits elim!: err_convert
      intro!: err_effect_Failed err_effect_Quiet err_get_jni_env intro: err_neonHostProcessPackets)

lemma err_neon_host_get_session_id:
  "neon_host_get_session_id J t p s = Some (r, s') \<Longrightarrow> err_effect t r s s'"
  unfolding neon_host_get_session_id_def
  by (auto simp: Let_def case_prod_beta buf_simps get_jni_env_available
      split: if_splits elim!: err_convert
      intro!: err_effect_Failed err_effect_Quiet err_get_jni_env intro: err_neonHostGetSessionId)

lemma err_neon_host_get_client_count:
  "neon_host_get_client_count J t p s = Some (r, s') \<Longrightarrow> err_effect t r s s'"
  unfolding neon_host_get_client_count_def
  by (auto simp: Let_def case_prod_beta buf_simps get_jni_env_available
      split: if_splits elim!: err_convert
      intro!: err_effect_Failed err_effect_Quiet err_get_jni_env intro: err_neonHostGetClientCount)

lemma err_neon_host_set_client_connect_callback:
  "neon_host_set_client_connect_callback J t p c s = Some (r, s') \<Longrightarrow> err_effect t r s s'"
  unfolding neon_host_set_client_connect_callback_def
  by (auto simp: Let_def case_prod_beta buf_simps get_jni_env_available
      split: if_splits elim!: err_convert
      intro!: err_effect_Failed err_effect_Quiet err_get_jni_env intro: err_neonHostSetClientConnectCallback)

lemma err_neon_host_set_client_deny_callback:
  "neon_host_set_client_deny_callback J t p c s = Some (r, s') \<Longrightarrow> err_effect t r s s'"
  unfolding neon_host_set_client_deny_callback_def
  by (auto simp: Let_def case_prod_beta buf_simps get_jni_env_available
      split: if_splits elim!: err_convert
      intro!: err_effect_Failed err_effect_Quiet err_get_jni_env intro: err_neonHostSetClientDenyCallback)

lemma err_neon_host_set_ping_received_callback:
  "neon_host_set_ping_received_callback J t p c s = Some (r, s') \<Longrightarrow> err_effect t r s s'"
  unfolding neon_host_set_ping_received_callback_def
  by (auto simp: Let_def case_prod_beta buf_simps get_jni_env_available
      split: if_splits elim!: err_convert
      intro!: err_effect_Failed err_effect_Quiet err_get_jni_env intro: err_neonHostSetPingReceivedCallback)

lemma err_neon_host_set_unhandled_packet_callback:
  "neon_host_set_unhandled_packet_callback J t p c s = Some (r, s') \<Longrightarrow> err_effect t r s s'"
  unfolding neon_host_set_unhandled_packet_callback_def
  by (auto simp: Let_def case_prod_beta buf_simps get_jni_env_available
      split: if_splits elim!: err_convert
      intro!: err_effect_Failed err_effect_Quiet err_get_jni_env intro: err_neonHostSetUnhandledPacketCallback)

lemma err_neon_host_free:
  "neon_host_free J t p s = Some (r, s') \<Longrightarrow> err_effect t r s s'"
  unfolding neon_host_free_def
  by (auto simp: Let_def case_prod_beta buf_simps get_jni_env_available
      split: if_splits elim!: err_convert
      intro!: err_effect_Failed err_effect_Quiet err_get_jni_env intro: err_neonHostFree)

text \<open>Hence every call.\<close>

lemma err_exec_client_entry:
  assumes "exec_client_entry J t c s = Some (r, s')"
  shows "err_effect t r s s'"
proof (cases c)
  case (Call_neonClientNew a)
  with assms show ?thesis
    by (auto elim!: err_convert intro: err_neonClientNew)
next
  case (Call_neonClientConnect p sid a)
  with assms show ?thesis
    by (auto elim!: err_convert intro: err_neonClientConnect)
next
  case (Call_neonClientProcessPackets p)
  with assms show ?thesis
    by (auto elim!: err_convert intro: err_neonClientProcessPackets)
next
  case (Call_neonClientGetId p)
  with assms show ?thesis
    by (auto elim!: err_convert intro: err_neonClientGetId)
next
  case (Call_neonClientGetSessionId p)
  with assms show ?thesis
    by (auto elim!: err_convert intro: err_neonClientGetSessionId)
next
  case (Call_neonClientIsConnected p)
  with assms show ?thesis
    by (auto elim!: err_convert intro: err_neonClientIsConnected)
next
  case (Call_neonClientSendPing p)
  with assms show ?thesis
    by (auto elim!: err_convert intro: err_neonClientSendPing)
next
  case (Call_neonClientSetAutoPing p b)
  with assms show ?thesis
    by (auto elim!: err_convert intro: err_neonClientSetAutoPing)
next
  case (Call_neonClientSetPongCallback p c)
  with assms show ?thesis
    by (auto elim!: err_convert intro: err_neonClientSetPongCallback)
next
  case (Call_neonClientSetSessionConfigCallback p c)
  with assms show ?thesis
    by (auto elim!: err_convert intro: err_neonClientSetSessionConfigCallback)
next
  case (Call_neonClientSetPacketTypeRegistryCallback p c)
  with assms show ?thesis
    by (auto elim!: err_convert intro: err_neonClientSetPacketTypeRegistryCallback)
next
  case (Call_neonClientSetUnhandledPacketCallback p c)
  with assms show ?thesis
    by (auto elim!: err_convert intro: err_neonClientSetUnhandledPacketCallback)
next
  case (Call_neonClientSetWrongDestinationCallback p c)
  with assms show ?thesis
    by (auto elim!: err_convert intro: err_neonClientSetWrongDestinationCallback)
next
  case (Call_neonClientFree p)
  with assms show ?thesis
    by (auto elim!: err_convert intro: err_neonClientFree)
next
  case Call_neonGetLastError
  with assms show ?thesis
    by (auto intro: err_effect_Ok)
qed

lemma err_exec_host_entry:
  assumes "exec_host_entry J t c s = Some (r, s')"
  shows "err_effect t r s s'"
proof (cases c)
  case (Call_neonHostNew sid a)
  with assms show ?thesis
    by (auto elim!: err_convert intro: err_neonHostNew)
next
  case (Call_neonHostStart p)
  with assms show ?thesis
    by (auto elim!: err_convert intro: err_neonHostStart)
next
  case (Call_neonHostProcessPackets p)
  with assms show ?thesis
    by (auto elim!: err_convert intro: err_neonHostProcessPackets)
next
  case (Call_neonHostGetSessionId p)
  with assms show ?thesis
    by (auto elim!: err_convert intro: err_neonHostGetSessionId)
next
  case (Call_neonHostGetClientCount p)
  with assms show ?thesis
    by (auto elim!: err_convert intro: err_neonHostGetClientCount)
next
  case (Call_neonHostSetClientConnectCallback p c)
  with assms show ?thesis
    by (auto elim!: err_convert intro: err_neonHostSetClientConnectCallback)
next
  case (Call_neonHostSetClientDenyCallback p c)
  with assms show ?thesis
    by (auto elim!: err_convert intro: err_neonHostSetClientDenyCallback)
next
  case (Call_neonHostSetPingReceivedCallback p c)
  with assms show ?thesis
    by (auto elim!: err_convert intro: err_neonHostSetPingReceivedCallback)
next
  case (Call_neonHostSetUnhandledPacketCallback p c)
  with assms show ?thesis
    by (auto elim!: err_convert intro: err_neonHostSetUnhandledPacketCallback)
next
  case (Call_neonHostFree p)
  with assms show ?thesis
    by (auto elim!: err_convert intro: err_neonHostFree)
qed

lemma err_exec_client_api:
  assumes "exec_client_api J t c s = Some (r, s')"
  shows "err_effect t r s s'"
proof (cases c)
  case (Call_neon_client_new a)
  with assms show ?thesis
    by (auto elim!: err_convert intro: err_neon_client_new)
next
  case (Call_neon_client_connect p sid a)
  with assms show ?thesis
    by (auto elim!: err_convert intro: err_neon_client_connect)
next
  case (Call_neon_client_process_packets p)
  with assms show ?thesis
    by (auto elim!: err_convert intro: err_neon_client_process_packets)
next
  case (Call_neon_client_get_id p)
  with assms show ?thesis
    by (auto elim!: err_convert intro: err_neon_client_get_id)
next
  case (Call_neon_client_get_session_id p)
  with assms show ?thesis
    by (auto elim!: err_convert intro: err_neon_client_get_session_id)
next
  case (Call_neon_client_is_connected p)
  with assms show ?thesis
    by (auto elim!: err_convert intro: err_neon_client_is_connected)
next
  case (Call_neon_client_send_ping p)
  with assms show ?thesis
    by (auto elim!: err_convert intro: err_neon_client_send_ping)
next
  case (Call_neon_client_set_auto_ping p b)
  with assms show ?thesis
    by (auto elim!: err_convert intro: err_neon_client_set_auto_ping)
next
  case (Call_neon_client_set_pong_callback p c)
  with assms show ?thesis
    by (auto elim!: err_convert intro: err_neon_client_set_pong_callback)
next
  case (Call_neon_client_set_session_config_callback p c)
  with assms show ?thesis
    by (auto elim!: err_convert intro: err_neon_client_set_session_config_callback)
next
  case (Call_neon_client_set_packet_type_registry_callback p c)
  with assms show ?thesis
    by (auto elim!: err_convert intro: err_neon_client_set_packet_type_registry_callback)
next
  case (Call_neon_client_set_unhandled_packet_callback p c)
  with assms show ?thesis
    by (auto elim!: err_convert intro: err_neon_client_set_unhandled_packet_callback)
next
  case (Call_neon_client_set_wrong_destination_callback p c)
  with assms show ?thesis
    by (auto elim!: err_convert intro: err_neon_client_set_wrong_destination_callback)
next
  case (Call_neon_client_free p)
  with assms show ?thesis
    by (auto elim!: err_convert intro: err_neon_client_free)
qed

lemma err_exec_host_api:
  assumes "exec_host_api J t c s = Some (r, s')"
  shows "err_effect t r s s'"
proof (cases c)
  case (Call_neon_host_new sid a)
  with assms show ?thesis
    by (auto elim!: err_convert intro: err_neon_host_new)
next
  case (Call_neon_host_start p)
  with assms show ?thesis
    by (auto elim!: err_convert intro: err_neon_host_start)
next
  case (Call_neon_host_process_packets p)
  with assms show ?thesis
    by (auto elim!: err_convert intro: err_neon_host_process_packets)
next
  case (Call_neon_host_get_session_id p)
  with assms show ?thesis
    by (auto elim!: err_convert intro: err_neon_host_get_session_id)
next
  case (Call_neon_host_get_client_count p)
  with assms show ?thesis
    by (auto elim!: err_convert intro: err_neon_host_get_client_count)
next
  case (Call_neon_host_set_client_connect_callback p c)
  with assms show ?thesis
    by (auto elim!: err_convert intro: err_neon_host_set_client_connect_callback)
next
  case (Call_neon_host_set_client_deny_callback p c)
  with assms show ?thesis
    by (auto elim!: err_convert intro: err_neon_host_set_client_deny_callback)
next
  case (Call_neon_host_set_ping_received_callback p c)
  with assms show ?thesis
    by (auto elim!: err_convert intro: err_neon_host_set_ping_received_callback)
next
  case (Call_neon_host_set_unhandled_packet_callback p c)
  with assms show ?thesis
    by (auto elim!: err_convert intro: err_neon_host_set_unhandled_packet_callback)
next
  case (Call_neon_host_free p)
  with assms show ?thesis
    by (auto elim!: err_convert intro: err_neon_host_free)
qed

lemma err_JNI_OnLoad:
  "JNI_OnLoad J t s = Some (r, s') \<Longrightarrow> err_effect t r s s'"
  unfolding JNI_OnLoad_def
  by (auto simp: Let_def split: if_splits intro!: err_effect_Ok err_effect_Quiet)

lemma err_JNI_OnUnload:
  "JNI_OnUnload J t s = Some (r, s') \<Longrightarrow> err_effect t r s s'"
  unfolding JNI_OnUnload_def
  by (auto simp: Let_def split: if_splits intro!: err_effect_Ok)

lemma err_exec:
  assumes "exec J t c s = Some (r, s')"
  shows "err_effect t r s s'"
proof (cases c)
  case Call_JNI_OnLoad
  with assms show ?thesis
    by (auto elim!: err_convert intro: err_JNI_OnLoad)
next
  case Call_JNI_OnUnload
  with assms show ?thesis
    by (auto elim!: err_convert intro: err_JNI_OnUnload)
next
  case (ClientEntry x)
  with assms show ?thesis
    by (auto intro: err_exec_client_entry)
next
  case (HostEntry x)
  with assms show ?thesis
    by (auto intro: err_exec_host_entry)
next
  case (ClientApi x)
  with assms show ?thesis
    by (auto intro: err_exec_client_api)
next
  case (HostApi x)
  with assms show ?thesis
    by (auto intro: err_exec_host_api)
next
  case Call_neon_get_last_error
  with assms show ?thesis
    by (auto intro: err_effect_Ok)
qed

lemma bad_address_connect:
  "exec jvm_ok 0 (ClientApi (Call_neon_client_connect 4096 1 ''bad-address'')) client_state
     = Some (Failed (RetBool False), bad_address_state)"
  by (simp add: neon_client_connect_def get_jni_env_def neonClientConnect_def convert_def
      sscanf_relay_def jvm_ok_def client_state_def loaded_state_def initial_state_def
      bad_address_state_def)

lemma bad_address_message:
  "neon_get_last_error 0 bad_address_state
     = Some ''Invalid relay address format (expected host:port)''"
  by (simp add: neon_get_last_error_def bad_address_state_def set_error_def)

text \<open>
  Where the null handle or \<^verbatim>\<open>false\<close> is returned by the functions that
  \<open>failure_return\<close> names, the return is one that has recorded an error.
\<close>

lemma ret_value_map_ret: "ret_value (map_ret f r) = f (ret_value r)"
  by (cases r) simp_all

lemma is_Failed_map_ret: "is_Failed (map_ret f r) = is_Failed r"
  by (cases r) simp_all

lemma convert_result:
  "convert f x = Some (r, s') \<Longrightarrow> \<exists>r0. x = Some (r0, s') \<and> r = map_ret f r0"
  by (auto simp: convert_def split: option.splits)

lemma null_neonClientNew:
  "neonClientNew J t a s = Some (r, s') \<Longrightarrow> ret_value r = 0 \<Longrightarrow> is_Failed r"
  unfolding neonClientNew_def
  by (auto simp: Let_def case_prod_beta split: option.splits if_splits)

lemma false_neonClientConnect:
  "neonClientConnect J t p sid a s = Some (r, s') \<Longrightarrow> ret_value r = False \<Longrightarrow> is_Failed r"
  unfolding neonClientConnect_def
  by (auto simp: Let_def case_prod_beta split: option.splits if_splits)

lemma false_neonClientSendPing:
  "neonClientSendPing J t p s = Some (r, s') \<Longrightarrow> ret_value r = False \<Longrightarrow> is_Failed r"
  unfolding neonClientSendPing_def
  by (auto simp: Let_def case_prod_beta split: option.splits if_splits)

lemma null_neonHostNew:
  "neonHostNew J t sid a s = Some (r, s') \<Longrightarrow> ret_value r = 0 \<Longrightarrow> is_Failed r"
  unfolding neonHostNew_def
  by (auto simp: Let_def case_prod_beta split: option.splits if_splits)

lemma false_neonHostStart:
  "neonHostStart J t p s = Some (r, s') \<Longrightarrow> ret_value r = False \<Longrightarrow> is_Failed r"
  unfolding neonHostStart_def
  by (auto simp: Let_def case_prod_beta split: option.splits if_splits)

lemma null_neon_client_new:
  "neon_client_new J t a s = Some (r, s') \<Longrightarrow> ret_value r = 0 \<Longrightarrow> is_Failed r"
  unfolding neon_client_new_def
  by (auto simp: Let_def case_prod_beta split: if_splits dest: null_neonClientNew)

lemma false_neon_client_connect:
  "neon_client_connect J t p sid a s = Some (r, s') \<Longrightarrow> ret_value r = False \<Longrightarrow> is_Failed r"
  unfolding neon_client_connect_def
  by (auto simp: Let_def case_prod_beta ret_value_map_ret is_Failed_map_ret
      split: if_splits dest!: convert_result dest: false_neonClientConnect)

lemma false_neon_client_send_ping:
  "neon_client_send_ping J t p s = Some (r, s') \<Longrightarrow> ret_value r = False \<Longrightarrow> is_Failed r"
  unfolding neon_client_send_ping_def
  by (auto simp: Let_def case_prod_beta ret_value_map_ret is_Failed_map_ret
      split: if_splits dest!: convert_result dest: false_neonClientSendPing)

lemma null_neon_host_new:
  "neon_host_new J t sid a s = Some (r, s') \<Longrightarrow> ret_value r = 0 \<Longrightarrow> is_Failed r"
  unfolding neon_host_new_def
  by (auto simp: Let_def case_prod_beta split: if_splits dest: null_neonHostNew)

lemma false_neon_host_start:
  "neon_host_start J t p s = Some (r, s') \<Longrightarrow> ret_value r = False \<Longrightarrow> is_Failed r"
  unfolding neon_host_start_def
  by (auto simp: Let_def case_prod_beta ret_value_map_ret is_Failed_map_ret
      split: if_splits dest!: convert_result dest: false_neonHostStart)

lemma failure_return_client_entry:
  assumes "exec_client_entry J t c s = Some (r, s')" "client_entry_failure c (ret_value r)"
  shows "is_Failed r"
  using assms
  by (cases c)
     (auto simp: client_entry_failure_def ret_value_map_ret is_Failed_map_ret
        dest!: convert_result
        dest: null_neonClientNew false_neonClientConnect false_neonClientSendPing)

lemma failure_return_host_entry:
  assumes "exec_host_entry J t c s = Some (r, s')" "host_entry_failure c (ret_value r)"
  shows "is_Failed r"
  using assms
  by (cases c)
     (auto simp: host_entry_failure_def ret_value_map_ret is_Failed_map_ret
        dest!: convert_result dest: null_neonHostNew false_neonHostStart)

lemma failure_return_client_api:
  assumes "exec_client_api J t c s = Some (r, s')" "client_api_failure c (ret_value r)"
  shows "is_Failed r"
  using assms
  by (cases c)
     (auto simp: client_api_failure_def ret_value_map_ret is_Failed_map_ret
        dest!: convert_result
        dest: null_neon_client_new false_neon_client_connect false_neon_client_send_ping)

lemma failure_return_host_api:
  assumes "exec_host_api J t c s = Some (r, s')" "host_api_failure c (ret_value r)"
  shows "is_Failed r"
  using assms
  by (cases c)
     (auto simp: host_api_failure_def ret_value_map_ret is_Failed_map_ret
        dest!: convert_result dest: null_neon_host_new false_neon_host_start)

lemma failure_return_recorded:
  assumes "exec J t c s = Some (r, s')" "failure_return c (ret_value r)"
  shows "is_Failed r"
  using assms
  by (cases c)
     (auto simp: failure_return_def
        dest: failure_return_client_entry failure_return_host_entry
          failure_return_client_api failure_return_host_api)

lemma recorded_message:
  assumes "err_effect A r s s'" "is_Failed r"
  shows "\<exists>m. m \<noteq> [] \<and> neon_get_last_error A s' = Some m
            \<and> neonGetLastError J' A s' = (if NewStringUTF_ok J' m then Some m else None)"
proof -
  from assms have "g_error_buffer s' A \<noteq> []"
    by (auto simp: err_effect_def)
  then show ?thesis
    by (intro exI [of _ "g_error_buffer s' A"])
       (simp add: neon_get_last_error_def neonGetLastError_def)
qed

text \<open>
  Claim C7, as stated: after a failing call on thread \<open>A\<close>, \<open>get_last_error\<close> on \<open>A\<close>
  returns a non-empty message. A call that fails silently leaves nothing to read:
  is-connected and get-id on the null handle return their sentinel on a thread that has
  recorded no error, and \<open>get_last_error\<close> on that thread still returns the
  none-sentinel; so does the entry point of is-connected when the method lookup fails.
\<close>

theorem silent_failure_counterexample:
  "exec jvm_ok 0 (ClientApi (Call_neon_client_is_connected 0)) initial_state
     = Some (Quiet (RetBool False), initial_state)
   \<and> exec jvm_ok 0 (ClientApi (Call_neon_client_get_id 0)) initial_state
     = Some (Quiet (RetByte 0), initial_state)
   \<and> exec (jvm_ok\<lparr>GetMethodID_ok := (\<lambda>cls name sig. False)\<rparr>) 0
        (ClientEntry (Call_neonClientIsConnected 4096)) client_state
     = Some (Quiet (RetBool False), client_state)
   \<and> neon_get_last_error 0 initial_state = None
   \<and> neon_get_last_error 0 client_state = None"
  by (simp add: neon_client_is_connected_def neon_client_get_id_def
      neonClientIsConnected_def convert_def neon_get_last_error_def jvm_ok_def
      client_state_def loaded_state_def initial_state_def)

text \<open>
  Claim C7, amended. The error channel is per thread. Whatever call thread \<open>A\<close> makes, the
  buffer of another thread \<open>B\<close> is as before: both accessors return on \<open>B\<close> what they
  returned before, and the none-sentinel if \<open>B\<close> has recorded no error. After a call on
  \<open>A\<close> that failed with an error recorded, which every call is that returns the null
  handle from creating a client or a host, or \<^verbatim>\<open>false\<close> from connect, send-ping or
  start, \<open>neon_get_last_error\<close> on \<open>A\<close> returns a non-empty message, and the accessor of
  the entry-point layer returns the same message when it can convert it and the
  none-sentinel when it cannot. A call that did not record an error, the silent failures
  among them, leaves the buffer of \<open>A\<close> as it was.
\<close>

theorem error_channel_thread_isolation:
  assumes "A \<noteq> B" and "exec J A c s = Some (r, s')"
  shows "g_error_buffer s' B = g_error_buffer s B
       \<and> neon_get_last_error B s' = neon_get_last_error B s
       \<and> neonGetLastError J' B s' = neonGetLastError J' B s
       \<and> (g_error_buffer s B = [] \<longrightarrow>
            neon_get_last_error B s' = None \<and> neonGetLastError J' B s' = None)
       \<and> (failure_return c (ret_value r) \<or> is_Failed r \<longrightarrow>
            (\<exists>m. m \<noteq> [] \<and> neon_get_last_error A s' = Some m
                 \<and> neonGetLastError J' A s'
                     = (if NewStringUTF_ok J' m then Some m else None)))
       \<and> (\<not> is_Failed r \<longrightarrow> g_error_buffer s' A = g_error_buffer s A)"
proof -
  from err_exec [OF assms(2)] have e: "err_effect A r s s'" .
  from e assms(1) have b: "g_error_buffer s' B = g_error_buffer s B"
    by (auto simp: err_effect_def split: if_splits)
  have f: "is_Failed r" if "failure_return c (ret_value r) \<or> is_Failed r"
    using that failure_return_recorded [OF assms(2)] by blast
  have m: "\<exists>m. m \<noteq> [] \<and> neon_get_last_error A s' = Some m
                 \<and> neonGetLastError J' A s'
                     = (if NewStringUTF_ok J' m then Some m else None)"
    if "failure_return c (ret_value r) \<or> is_Failed r"
    using recorded_message [OF e f [OF that]] .
  from e have q: "\<not> is_Failed r \<longrightarrow> g_error_buffer s' A = g_error_buffer s A"
    by (simp add: err_effect_def)
  have i: "neon_get_last_error B s' = neon_get_last_error B s
       \<and> neonGetLastError J' B s' = neonGetLastError J' B s
       \<and> (g_error_buffer s B = [] \<longrightarrow>
            neon_get_last_error B s' = None \<and> neonGetLastError J' B s' = None)"
    using b by (simp add: neon_get_last_error_def neonGetLastError_def)
  from b i m q show ?thesis
    by blast
qed

theorem error_channel_thread_isolation_witness:
  "(0 :: thread) \<noteq> 1
   \<and> exec jvm_ok 0 (ClientApi (Call_neon_client_connect 4096 1 ''bad-address'')) client_state
       = Some (Failed (RetBool False), bad_address_state)
   \<and> failure_return (ClientApi (Call_neon_client_connect 4096 1 ''bad-address''))
        (ret_value (Failed (RetBool False)))
   \<and> g_error_buffer client_state 1 = []
   \<and> neon_get_last_error 1 bad_address_state = None
   \<and> neonGetLastError jvm_ok 1 bad_address_state = None
   \<and> neon_get_last_error 0 bad_address_state
       = Some ''Invalid relay address format (expected host:port)''
   \<and> neonGetLastError jvm_ok 0 bad_address_state
       = Some ''Invalid relay address format (expected host:port)''"
proof -
  have n: "(0 :: thread) \<noteq> 1"
    by simp
  have b: "g_error_buffer client_state 1 = []"
    by (simp add: client_state_def loaded_state_def initial_state_def)
  have f: "failure_return (ClientApi (Call_neon_client_connect 4096 1 ''bad-address''))
        (ret_value (Failed (RetBool False)))"
    by (simp add: failure_return_def client_api_failure_def)
  from error_channel_thread_isolation [OF n bad_address_connect, of jvm_ok] b f
  have "neon_get_last_error 1 bad_address_state = None
        \<and> neonGetLastError jvm_ok 1 bad_address_state = None
        \<and> (\<exists>m. m \<noteq> [] \<and> neon_get_last_error 0 bad_address_state = Some m
                 \<and> neonGetLastError jvm_ok 0 bad_address_state
                     = (if NewStringUTF_ok jvm_ok m then Some m else None))"
    by blast
  then show ?thesis
    using n b f bad_address_connect bad_address_message
    by (auto simp: jvm_ok_def)
qed

text \<open>
  Claim C8. A call that returns on its success path leaves every error buffer as it
  was: a message recorded by an earlier failure is still what \<open>get_last_error\<close> returns
  after a later successful call on the same thread.
\<close>

theorem success_keeps_error_channel:
  assumes "exec J t c s = Some (Ok v, s')"
  shows "g_error_buffer s' = g_error_buffer s
       \<and> neon_get_last_error t' s' = neon_get_last_error t' s
       \<and> neonGetLastError J' t' s' = neonGetLastError J' t' s"
proof -
  from err_exec [OF assms] have "g_error_buffer s' = g_error_buffer s"
    by (simp add: err_effect_def)
  then show ?thesis
    by (simp add: neon_get_last_error_def neonGetLastError_def)
qed

theorem success_keeps_error_channel_witness:
  "exec jvm_ok 0 (ClientApi (Call_neon_client_is_connected 4096)) bad_address_state
     = Some (Ok (RetBool False),
             bad_address_state\<lparr>trace := trace bad_address_state @ [Invoked 7 ''isConnected'' []]\<rparr>)
   \<and> neon_get_last_error 0
        (bad_address_state\<lparr>trace := trace bad_address_state @ [Invoked 7 ''isConnected'' []]\<rparr>)
       = Some ''Invalid relay address format (expected host:port)''"
proof -
  have x: "exec jvm_ok 0 (ClientApi (Call_neon_client_is_connected 4096)) bad_address_state
     = Some (Ok (RetBool False),
             bad_address_state\<lparr>trace := trace bad_address_state @ [Invoked 7 ''isConnected'' []]\<rparr>)"
    by (simp add: neon_client_is_connected_def get_jni_env_def neonClientIsConnected_def
        convert_def CallBooleanMethod_def raise_if_thrown_def jvm_ok_def client_state_def
        loaded_state_def initial_state_def bad_address_state_def set_error_def)
  from success_keeps_error_channel [OF x, of 0] bad_address_message
  have "neon_get_last_error 0
        (bad_address_state\<lparr>trace := trace bad_address_state @ [Invoked 7 ''isConnected'' []]\<rparr>)
       = Some ''Invalid relay address format (expected host:port)''"
    by simp
  with x show ?thesis
    by simp
qed

text \<open>
  Claim C10. \<open>get_last_error\<close> never returns the empty string, in any state and so in
  every reachable one: it returns the none-sentinel for an empty buffer, as at process
  start, and the buffer otherwise. No call writes an empty message: a buffer that a
  call has changed is the buffer of the calling thread, the call has failed, and the
  buffer is not empty.
\<close>

theorem get_last_error_never_empty:
  "neon_get_last_error t s \<noteq> Some []
   \<and> neonGetLastError J' t s \<noteq> Some []
   \<and> neon_get_last_error t initial_state = None
   \<and> (exec J t c s = Some (r, s') \<and> g_error_buffer s' t' \<noteq> g_error_buffer s t' \<longrightarrow>
        g_error_buffer s' t' \<noteq> [] \<and> t' = t \<and> is_Failed r)"
proof -
  have "g_error_buffer s' t' \<noteq> [] \<and> t' = t \<and> is_Failed r"
    if "exec J t c s = Some (r, s')" "g_error_buffer s' t' \<noteq> g_error_buffer s t'"
    using err_exec [OF that(1)] that(2)
    by (auto simp: err_effect_def split: if_splits)
  then show ?thesis
    by (auto simp: neon_get_last_error_def neonGetLastError_def initial_state_def)
qed

theorem get_last_error_never_empty_witness:
  "exec jvm_ok 0 (ClientApi (Call_neon_client_connect 4096 1 ''bad-address'')) client_state
     = Some (Failed (RetBool False), bad_address_state)
   \<and> g_error_buffer bad_address_state 0 \<noteq> g_error_buffer client_state 0
   \<and> g_error_buffer bad_address_state 0 \<noteq> []
   \<and> neon_get_last_error 0 bad_address_state \<noteq> Some []
   \<and> neon_get_last_error 0 client_state = None"
proof -
  have d: "g_error_buffer bad_address_state 0 \<noteq> g_error_buffer client_state 0"
    by (simp add: bad_address_state_def set_error_def client_state_def loaded_state_def
        initial_state_def)
  have n: "neon_get_last_error 0 client_state = None"
    by (simp add: neon_get_last_error_def client_state_def loaded_state_def
        initial_state_def)
  from get_last_error_never_empty
         [where t = 0 and s = client_state and J = jvm_ok and s' = bad_address_state
            and c = "ClientApi (Call_neon_client_connect 4096 1 ''bad-address'')"
            and r = "Failed (RetBool False)" and t' = 0]
    get_last_error_never_empty [where t = 0 and s = bad_address_state]
    bad_address_connect d
  have "g_error_buffer bad_address_state 0 \<noteq> [] \<and> neon_get_last_error 0 bad_address_state \<noteq> Some []"
    by blast
  with bad_address_connect d n show ?thesis
    by simp
qed

end
